theory Spec2Isabelle
  imports Complex_Main "HOL-Library.Char_ord" "HOL-Library.List_Lexorder" "HOL-Library.Multiset"
begin

section \<open>StemSCAPE-SI: the data model\<close>

text \<open>
  The script \<^verbatim>\<open>StemSCAPE-SI.py\<close> glues three libraries together: pandas tables, a
  scikit-learn random forest with its label encoder, and a SHAP tree explainer. The tables
  and the label encoder are modelled here; the forest, the explainer and the file reader are
  black boxes, taken as the fields of a record of library functions.

  Exceptions are values: every function that can raise returns \<open>error + 'a\<close>.
\<close>

datatype error =
    KeyError string
  | ValueError string
  | IndexError
  | NotFittedError
  | LibraryError string

text \<open>
  A numeric cell is a float, which is a real number or NaN. A column has a numeric dtype or
  it has not; a cell of a non-numeric column is a string or is missing (\<open>None\<close>). A data
  frame is its row count and its named columns, in order.
\<close>

datatype float64 = NaN | Fin real

datatype column = NumCol "float64 list" | ObjCol "string option list"

record frame =
  nrows :: nat
  cols :: "(string \<times> column) list"

definition columns :: "frame \<Rightarrow> string list" where
  "columns df = map fst (cols df)"

definition column_length :: "column \<Rightarrow> nat" where
  "column_length c = (case c of NumCol xs \<Rightarrow> length xs | ObjCol ss \<Rightarrow> length ss)"

text \<open>What \<^verbatim>\<open>read_csv\<close> returns: distinct column names, every column as long as the table.\<close>

definition wf_frame :: "frame \<Rightarrow> bool" where
  "wf_frame df = (distinct (columns df) \<and> list_all (\<lambda>(n, c). column_length c = nrows df) (cols df))"

definition is_numeric :: "column \<Rightarrow> bool" where
  "is_numeric c = (case c of NumCol _ \<Rightarrow> True | ObjCol _ \<Rightarrow> False)"

text \<open>
  \<^verbatim>\<open>series.astype(str)\<close>. A string stays as it is. The rendering of a numeric cell is the
  library's, and so is what becomes of a missing cell, which is a NaN: one version of pandas
  makes it the string \<^verbatim>\<open>nan\<close>, another keeps it missing. So the library's conversion
  of a float gives a string or a missing value, and a missing cell of any column goes where
  that conversion sends NaN.
\<close>

definition astype_str :: "(float64 \<Rightarrow> string option) \<Rightarrow> column \<Rightarrow> string option list" where
  "astype_str num_str c =
     (case c of
        NumCol xs \<Rightarrow> map num_str xs
      | ObjCol ss \<Rightarrow> map (\<lambda>x. case x of None \<Rightarrow> num_str NaN | Some s \<Rightarrow> Some s) ss)"

text \<open>\<^verbatim>\<open>df[c]\<close>, \<^verbatim>\<open>df[c] = v\<close> and \<^verbatim>\<open>df.drop(columns=cs)\<close>.\<close>

definition getitem :: "frame \<Rightarrow> string \<Rightarrow> error + column" where
  "getitem df c = (case map_of (cols df) c of None \<Rightarrow> Inl (KeyError c) | Some v \<Rightarrow> Inr v)"

definition setitem :: "frame \<Rightarrow> string \<Rightarrow> column \<Rightarrow> frame" where
  "setitem df c v =
     (if c \<in> set (columns df)
      then df\<lparr>cols := map (\<lambda>(n, w). if n = c then (n, v) else (n, w)) (cols df)\<rparr>
      else df\<lparr>cols := cols df @ [(c, v)]\<rparr>)"

definition drop_columns :: "frame \<Rightarrow> string list \<Rightarrow> error + frame" where
  "drop_columns df cs =
     (case filter (\<lambda>c. c \<notin> set (columns df)) cs of
        [] \<Rightarrow> Inr (df\<lparr>cols := filter (\<lambda>(n, w). n \<notin> set cs) (cols df)\<rparr>)
      | c # _ \<Rightarrow> Inl (KeyError c))"

text \<open>\<^verbatim>\<open>df.insert(loc, name, v)\<close>: refuses a name the frame already has.\<close>

definition df_insert :: "frame \<Rightarrow> nat \<Rightarrow> string \<Rightarrow> column \<Rightarrow> error + frame" where
  "df_insert df loc name v =
     (if name \<in> set (columns df) then Inl (ValueError (''cannot insert '' @ name @ '', already exists''))
      else if column_length v \<noteq> nrows df
        then Inl (ValueError ''Length of values does not match length of index'')
      else if length (cols df) < loc then Inl IndexError
      else Inr (df\<lparr>cols := take loc (cols df) @ [(name, v)] @ drop loc (cols df)\<rparr>))"

section \<open>The label encoder\<close>

text \<open>
  scikit-learn's \<^verbatim>\<open>LabelEncoder\<close>: \<^verbatim>\<open>fit_transform\<close> stores the distinct values as
  \<^verbatim>\<open>classes_\<close>, the strings in ascending order and after them the missing value if
  there is one, and returns the position of every value among them; \<^verbatim>\<open>transform\<close>
  looks values up in the stored classes and raises on a value that is not there. Strings
  are compared as Python compares them, character by character.
\<close>

record label_encoder =
  classes :: "string option list option"

definition LabelEncoder :: label_encoder where
  "LabelEncoder = \<lparr>classes = None\<rparr>"

fun present :: "string option list \<Rightarrow> string list" where
  "present [] = []"
| "present (None # ys) = present ys"
| "present (Some s # ys) = s # present ys"

definition np_unique :: "string option list \<Rightarrow> string option list" where
  "np_unique ys = map Some (sort (remdups (present ys))) @ (if None \<in> set ys then [None] else [])"

fun index_of :: "'a list \<Rightarrow> 'a \<Rightarrow> nat" where
  "index_of [] y = 0"
| "index_of (c # cs) y = (if c = y then 0 else Suc (index_of cs y))"

definition fit_transform :: "label_encoder \<Rightarrow> string option list \<Rightarrow> label_encoder \<times> nat list" where
  "fit_transform le ys =
     (let cs = np_unique ys in (le\<lparr>classes := Some cs\<rparr>, map (index_of cs) ys))"

definition transform :: "label_encoder \<Rightarrow> string option list \<Rightarrow> error + nat list" where
  "transform le ys =
     (case classes le of
        None \<Rightarrow> Inl NotFittedError
      | Some cs \<Rightarrow>
          if list_ex (\<lambda>y. y \<notin> set cs) ys
          then Inl (ValueError ''y contains previously unseen labels'')
          else Inr (map (index_of cs) ys))"

text \<open>
  The forest's \<^verbatim>\<open>classes_\<close> after \<^verbatim>\<open>fit(X, y)\<close>: the distinct values of \<open>y\<close> in
  ascending order. Column \<open>k\<close> of \<^verbatim>\<open>predict_proba\<close> is the probability of the class
  \<^verbatim>\<open>classes_[k]\<close>.
\<close>

definition forest_classes :: "nat list \<Rightarrow> nat list" where
  "forest_classes y = sort (remdups y)"

section \<open>The libraries taken as black boxes\<close>

text \<open>
  What the explainer's \<^verbatim>\<open>shap_values\<close> returns: a list with one samples-by-features
  array per model output (never empty: the first array and the others), one array of
  samples by features by outputs, or one samples-by-features array. Its
  \<^verbatim>\<open>expected_value\<close> is a bare number or an array of numbers.
\<close>

datatype shap_out =
    PyList "real list list" "real list list list"
  | NdArray3 "real list list list"
  | NdArray2 "real list list"

datatype expected = Scalar real | Array1 "real list"

text \<open>
  The library calls of the script, for a model type \<open>'m\<close> and an explainer type \<open>'e\<close>:
  \<^verbatim>\<open>pd.read_csv(path, sep='\t')\<close>, the conversion of a float to a string, the fit of the
  forest (one run of it: the forest is built with random draws), its
  \<^verbatim>\<open>predict_proba\<close> and \<^verbatim>\<open>feature_importances_\<close>, \<^verbatim>\<open>shap.TreeExplainer(model)\<close>
  and the explainer's \<^verbatim>\<open>expected_value\<close> and \<^verbatim>\<open>shap_values\<close>. Floats are read as
  real numbers. Any of the calls may raise.
\<close>

record ('m, 'e) lib =
  read_csv :: "string \<Rightarrow> error + frame"
  num_str :: "float64 \<Rightarrow> string option"
  rf_fit :: "frame \<Rightarrow> nat list option \<Rightarrow> error + 'm"
  predict_proba :: "'m \<Rightarrow> frame \<Rightarrow> error + real list list"
  feature_importances :: "'m \<Rightarrow> real list"
  TreeExplainer :: "'m \<Rightarrow> error + 'e"
  expected_value :: "'e \<Rightarrow> expected"
  shap_values :: "'e \<Rightarrow> frame \<Rightarrow> error + shap_out"

section \<open>Strings and paths\<close>

text \<open>
  The decimal digits of a row number, for the identifiers \<^verbatim>\<open>sample_<i>\<close>;
  \<^verbatim>\<open>os.path.basename\<close> and \<^verbatim>\<open>os.path.join\<close> on paths with the separator \<^verbatim>\<open>/\<close>.
\<close>

fun str_nat :: "nat \<Rightarrow> string" where
  "str_nat n =
     (if n < 10 then [''0123456789'' ! n]
      else str_nat (n div 10) @ [''0123456789'' ! (n mod 10)])"

declare str_nat.simps [simp del]

definition basename :: "string \<Rightarrow> string" where
  "basename p = rev (takeWhile (\<lambda>c. c \<noteq> CHR ''/'') (rev p))"

definition path_join :: "string \<Rightarrow> string \<Rightarrow> string" where
  "path_join d f = (if d = [] \<or> last d = CHR ''/'' then d @ f else d @ ''/'' @ f)"

section \<open>encode\_non\_numeric\<close>

text \<open>
  The loop body, for one column name: a fresh encoder is fitted on the column's strings and
  its codes replace the column.
\<close>

definition encode_column :: "(float64 \<Rightarrow> string option) \<Rightarrow> column \<Rightarrow> column" where
  "encode_column ns c =
     NumCol (map (\<lambda>k. Fin (real k)) (snd (fit_transform LabelEncoder (astype_str ns c))))"

definition encode_step :: "(float64 \<Rightarrow> string option) \<Rightarrow> string \<Rightarrow> frame \<Rightarrow> frame" where
  "encode_step ns col X =
     (case getitem X col of Inl e \<Rightarrow> X | Inr c \<Rightarrow> setitem X col (encode_column ns c))"

definition non_numeric_columns :: "frame \<Rightarrow> string list" where
  "non_numeric_columns X = map fst (filter (\<lambda>(n, c). \<not> is_numeric c) (cols X))"

definition encode_non_numeric :: "(float64 \<Rightarrow> string option) \<Rightarrow> frame \<Rightarrow> frame" where
  "encode_non_numeric ns X = fold (encode_step ns) (non_numeric_columns X) X"

text \<open>
  The same function on a store of objects. A frame is an object with an address; the store
  is the list of the objects made so far, and a new object gets the next address. The
  encoder is passed an address: every assignment \<^verbatim>\<open>X[col] = ...\<close> writes into the object
  at that address, and the address that comes back is the one that went in.
\<close>

type_synonym ref = nat
type_synonym heap = "frame list"

definition new_object :: "heap \<Rightarrow> frame \<Rightarrow> ref \<times> heap" where
  "new_object h X = (length h, h @ [X])"

definition heap_step :: "(float64 \<Rightarrow> string option) \<Rightarrow> ref \<Rightarrow> string \<Rightarrow> heap \<Rightarrow> heap" where
  "heap_step ns r col h = (if r < length h then h[r := encode_step ns col (h ! r)] else h)"

definition encode_non_numeric_h :: "(float64 \<Rightarrow> string option) \<Rightarrow> ref \<Rightarrow> heap \<Rightarrow> ref \<times> heap" where
  "encode_non_numeric_h ns r h =
     (if r < length h then (r, fold (heap_step ns r) (non_numeric_columns (h ! r)) h) else (r, h))"

section \<open>process\_data\<close>

text \<open>
  \<^verbatim>\<open>[sample_col] if sample_col else []\<close>: no name and the empty name both count as none.
  The identifiers are the identifier column as strings, or \<^verbatim>\<open>sample_0\<close>,
  \<^verbatim>\<open>sample_1\<close>, ... in row order. The function returns the identifiers, the matrix, the
  encoded labels if there are any, and the label encoder as it has left it.
\<close>

definition sample_cols :: "string option \<Rightarrow> string list" where
  "sample_cols sample_col = (case sample_col of None \<Rightarrow> [] | Some c \<Rightarrow> if c = [] then [] else [c])"

definition sample_ids ::
  "(float64 \<Rightarrow> string option) \<Rightarrow> frame \<Rightarrow> string option \<Rightarrow> error + string option list" where
  "sample_ids ns df sample_col =
     (case sample_cols sample_col of
        c # _ \<Rightarrow> (case getitem df c of Inl e \<Rightarrow> Inl e | Inr v \<Rightarrow> Inr (astype_str ns v))
      | [] \<Rightarrow> Inr (map (\<lambda>i. Some (''sample_'' @ str_nat i)) [0..<nrows df]))"

definition missing_label_message :: "string \<Rightarrow> string \<Rightarrow> string" where
  "missing_label_message name label_col =
     ''Training file ('' @ [CHR 0x27] @ name @ [CHR 0x27] @ '') missing required label column ''
       @ [CHR 0x27] @ label_col @ [CHR 0x27]"

definition process_data ::
  "('m, 'e) lib \<Rightarrow> string \<Rightarrow> string \<Rightarrow> string option \<Rightarrow> label_encoder \<Rightarrow> bool
     \<Rightarrow> error + (string option list \<times> frame \<times> nat list option) \<times> label_encoder" where
  "process_data L filepath label_col sample_col le_y is_train =
     (case read_csv L filepath of Inl e \<Rightarrow> Inl e | Inr df \<Rightarrow>
     (let name = basename filepath in
     (case sample_ids (num_str L) df sample_col of Inl e \<Rightarrow> Inl e | Inr ids \<Rightarrow>
     (let has_label = (label_col \<in> set (columns df)) in
      if is_train \<and> \<not> has_label then Inl (ValueError (missing_label_message name label_col))
      else if has_label then
        (case drop_columns df (label_col # sample_cols sample_col) of Inl e \<Rightarrow> Inl e | Inr X \<Rightarrow>
        (case getitem df label_col of Inl e \<Rightarrow> Inl e | Inr y \<Rightarrow>
         if is_train then
           (let (le', y_enc) = fit_transform le_y (astype_str (num_str L) y)
            in Inr ((ids, encode_non_numeric (num_str L) X, Some y_enc), le'))
         else
           (case transform le_y (astype_str (num_str L) y) of Inl e \<Rightarrow> Inl e | Inr y_enc \<Rightarrow>
            Inr ((ids, encode_non_numeric (num_str L) X, Some y_enc), le_y))))
      else
        (case drop_columns df (sample_cols sample_col) of Inl e \<Rightarrow> Inl e | Inr X \<Rightarrow>
         Inr ((ids, encode_non_numeric (num_str L) X, None), le_y))))))"

text \<open>
  \<open>process_data\<close> on the store: the table read is a new object, \<^verbatim>\<open>df.drop\<close> makes
  another new object, and the encoder is given the address of the second.
\<close>

definition process_data_h ::
  "('m, 'e) lib \<Rightarrow> string \<Rightarrow> string \<Rightarrow> string option \<Rightarrow> label_encoder \<Rightarrow> bool \<Rightarrow> heap
     \<Rightarrow> error + ((string option list \<times> ref \<times> nat list option) \<times> label_encoder) \<times> heap" where
  "process_data_h L filepath label_col sample_col le_y is_train h =
     (case read_csv L filepath of Inl e \<Rightarrow> Inl e | Inr loaded \<Rightarrow>
     (let (df, h1) = new_object h loaded; name = basename filepath in
     (case sample_ids (num_str L) (h1 ! df) sample_col of Inl e \<Rightarrow> Inl e | Inr ids \<Rightarrow>
     (let has_label = (label_col \<in> set (columns (h1 ! df))) in
      if is_train \<and> \<not> has_label then Inl (ValueError (missing_label_message name label_col))
      else if has_label then
        (case drop_columns (h1 ! df) (label_col # sample_cols sample_col) of Inl e \<Rightarrow> Inl e
         | Inr dropped \<Rightarrow>
        (let (X, h2) = new_object h1 dropped in
        (case getitem (h2 ! df) label_col of Inl e \<Rightarrow> Inl e | Inr y \<Rightarrow>
         if is_train then
           (let (le', y_enc) = fit_transform le_y (astype_str (num_str L) y);
                (X', h3) = encode_non_numeric_h (num_str L) X h2
            in Inr (((ids, X', Some y_enc), le'), h3))
         else
           (case transform le_y (astype_str (num_str L) y) of Inl e \<Rightarrow> Inl e | Inr y_enc \<Rightarrow>
           (let (X', h3) = encode_non_numeric_h (num_str L) X h2
            in Inr (((ids, X', Some y_enc), le_y), h3))))))
      else
        (case drop_columns (h1 ! df) (sample_cols sample_col) of Inl e \<Rightarrow> Inl e | Inr dropped \<Rightarrow>
        (let (X, h2) = new_object h1 dropped;
             (X', h3) = encode_non_numeric_h (num_str L) X h2
         in Inr (((ids, X', None), le_y), h3)))))))"

section \<open>output\_shap\_results\<close>

text \<open>
  The array \<^verbatim>\<open>x[:, 1]\<close> of a two-dimensional array and \<^verbatim>\<open>x[:, :, 1]\<close> of a
  three-dimensional one: index 1 must exist on the last axis. An array is held as its rows;
  the width of an array with no rows is not recorded.
\<close>

definition column1 :: "real list list \<Rightarrow> error + real list" where
  "column1 P = (if list_all (\<lambda>r. 1 < length r) P then Inr (map (\<lambda>r. r ! 1) P) else Inl IndexError)"

definition slice1 :: "real list list list \<Rightarrow> error + real list list" where
  "slice1 a =
     (if list_all (list_all (\<lambda>cs. 1 < length cs)) a then Inr (map (map (\<lambda>cs. cs ! 1)) a)
      else Inl IndexError)"

text \<open>
  Lines 82 to 88: the attribution array of class 1. In the last branch the value is kept as
  it came, whatever it is.
\<close>

definition select_shap :: "shap_out \<Rightarrow> error + shap_out" where
  "select_shap shap_values_X =
     (case shap_values_X of
        PyList m0 ms \<Rightarrow> (if 1 < length (m0 # ms) then Inr (NdArray2 ((m0 # ms) ! 1)) else Inr (PyList m0 ms))
      | NdArray3 a \<Rightarrow> (case slice1 a of Inl e \<Rightarrow> Inl e | Inr m \<Rightarrow> Inr (NdArray2 m))
      | NdArray2 m \<Rightarrow> Inr (NdArray2 m))"

text \<open>
  Line 143: the baseline of class 1, from \<^verbatim>\<open>np.array(explainer.expected_value)\<close>. A bare
  number makes an array of no dimension, which cannot be indexed.
\<close>

definition select_baseline :: "expected \<Rightarrow> error + real" where
  "select_baseline ev =
     (case ev of
        Scalar v \<Rightarrow> Inl IndexError
      | Array1 vs \<Rightarrow>
          (if 1 < length vs then Inr (vs ! 1)
           else (case vs of [] \<Rightarrow> Inl IndexError | v # _ \<Rightarrow> Inr v)))"

text \<open>
  \<^verbatim>\<open>pd.DataFrame(data, columns=cs, index=ids)\<close>: the data must be two-dimensional, with
  one row per index entry and one column per name.
\<close>

definition DataFrame :: "shap_out \<Rightarrow> string list \<Rightarrow> string option list \<Rightarrow> error + frame" where
  "DataFrame data cs ids =
     (case data of
        NdArray2 m \<Rightarrow>
          (if length m = length ids \<and> list_all (\<lambda>r. length r = length cs) m
           then Inr \<lparr>nrows = length ids,
                     cols = map (\<lambda>j. (cs ! j, NumCol (map (\<lambda>r. Fin (r ! j)) m))) [0..<length cs]\<rparr>
           else Inl (ValueError ''Shape of passed values does not match the indices''))
      | _ \<Rightarrow> Inl (ValueError ''Must pass 2-d input''))"

definition array2 :: "shap_out \<Rightarrow> real list list" where
  "array2 data = (case data of NdArray2 m \<Rightarrow> m | _ \<Rightarrow> [])"

text \<open>The files written so far, oldest first: path and table.\<close>

type_synonym files = "(string \<times> frame) list"

definition output_shap_results ::
  "('m, 'e) lib \<Rightarrow> string option list \<Rightarrow> frame \<Rightarrow> 'm \<Rightarrow> 'e \<Rightarrow> real \<Rightarrow> string \<Rightarrow> string \<Rightarrow> files
     \<Rightarrow> (error + real list list) \<times> files" where
  "output_shap_results L ids X model explainer baseline_class1 outdir name fs =
     (case shap_values L explainer X of Inl e \<Rightarrow> (Inl e, fs) | Inr sv \<Rightarrow>
     (case predict_proba L model X of Inl e \<Rightarrow> (Inl e, fs) | Inr P \<Rightarrow>
     (case column1 P of Inl e \<Rightarrow> (Inl e, fs) | Inr si \<Rightarrow>
     (case select_shap sv of Inl e \<Rightarrow> (Inl e, fs) | Inr shap_array \<Rightarrow>
     (case DataFrame shap_array (columns X) ids of Inl e \<Rightarrow> (Inl e, fs) | Inr df0 \<Rightarrow>
     (case df_insert df0 0 ''SampleID'' (ObjCol ids) of Inl e \<Rightarrow> (Inl e, fs) | Inr df1 \<Rightarrow>
     (case df_insert df1 1 ''baseline_value'' (NumCol (replicate (nrows df1) (Fin baseline_class1)))
        of Inl e \<Rightarrow> (Inl e, fs) | Inr df2 \<Rightarrow>
     (case df_insert df2 2 ''StemSCAPE-SI'' (NumCol (map Fin si)) of Inl e \<Rightarrow> (Inl e, fs) | Inr df_shap \<Rightarrow>
       (Inr (array2 shap_array), fs @ [(path_join outdir (name @ ''_shap.tsv''), df_shap)])))))))))"

section \<open>main\<close>

text \<open>
  The command line as a record. The parsing of the arguments, the making of the output
  directory and the two lines printed at the end are left out; the result of a run is how it
  ended and the files it wrote.
\<close>

record args =
  train :: string
  test :: string
  label :: string
  sample :: "string option"
  outdir :: string

text \<open>
  \<^verbatim>\<open>np.mean(np.abs(a), axis=0)\<close> for an array with \<open>f\<close> columns: the mean over no rows
  is NaN.
\<close>

definition mean_abs_column :: "real list list \<Rightarrow> nat \<Rightarrow> float64" where
  "mean_abs_column a j =
     (if a = [] then NaN else Fin (sum_list (map (\<lambda>r. \<bar>r ! j\<bar>) a) / real (length a)))"

definition mean_abs_axis0 :: "nat \<Rightarrow> real list list \<Rightarrow> float64 list" where
  "mean_abs_axis0 f a = map (mean_abs_column a) [0..<f]"

text \<open>
  The feature-importance table is built from the feature names and the forest's scores (two
  arrays of one length), gets the column of mean absolute attributions, and is sorted on
  the score, greatest first. The order of rows with equal scores is the library's.
\<close>

definition importance_frame :: "string list \<Rightarrow> real list \<Rightarrow> error + (string \<times> real) list" where
  "importance_frame features scores =
     (if length features = length scores then Inr (zip features scores)
      else Inl (ValueError ''All arrays must be of the same length''))"

text \<open>\<^verbatim>\<open>feat_importance['MeanAbsSHAP'] = values\<close>: one value per row of the table.\<close>

definition assign_column ::
  "(string \<times> real) list \<Rightarrow> float64 list \<Rightarrow> error + (string \<times> real \<times> float64) list" where
  "assign_column rows vs =
     (if length vs = length rows then Inr (map (\<lambda>((feature, score), v). (feature, score, v)) (zip rows vs))
      else Inl (ValueError ''Length of values does not match length of index''))"

definition sort_values_desc :: "(string \<times> real \<times> float64) list \<Rightarrow> (string \<times> real \<times> float64) list" where
  "sort_values_desc rows = sort_key (\<lambda>(feature, score, m). - score) rows"

definition importance_table :: "(string \<times> real \<times> float64) list \<Rightarrow> frame" where
  "importance_table rows =
     \<lparr>nrows = length rows,
      cols = [(''Feature'', ObjCol (map (\<lambda>(feature, score, m). Some feature) rows)),
              (''RF_FeatureImportance'', NumCol (map (\<lambda>(feature, score, m). Fin score) rows)),
              (''MeanAbsSHAP'', NumCol (map (\<lambda>(feature, score, m). m) rows))]\<rparr>"

definition main :: "('m, 'e) lib \<Rightarrow> args \<Rightarrow> (error + unit) \<times> files" where
  "main L a =
     (let le_y = LabelEncoder in
     (case process_data L (train a) (label a) (sample a) le_y True of Inl e \<Rightarrow> (Inl e, [])
      | Inr ((train_ids, X_train, y_train_enc), le_y1) \<Rightarrow>
     (case process_data L (test a) (label a) (sample a) le_y1 False of Inl e \<Rightarrow> (Inl e, [])
      | Inr ((test_ids, X_test, y_test_enc), le_y2) \<Rightarrow>
     (case rf_fit L X_train y_train_enc of Inl e \<Rightarrow> (Inl e, []) | Inr model \<Rightarrow>
     (case importance_frame (columns X_train) (feature_importances L model) of Inl e \<Rightarrow> (Inl e, [])
      | Inr feat_importance \<Rightarrow>
     (case TreeExplainer L model of Inl e \<Rightarrow> (Inl e, []) | Inr explainer \<Rightarrow>
     (case select_baseline (expected_value L explainer) of Inl e \<Rightarrow> (Inl e, []) | Inr baseline_class1 \<Rightarrow>
     (case output_shap_results L train_ids X_train model explainer baseline_class1 (outdir a) ''training'' []
        of (Inl e, fs1) \<Rightarrow> (Inl e, fs1) | (Inr train_shap_array, fs1) \<Rightarrow>
     (case output_shap_results L test_ids X_test model explainer baseline_class1 (outdir a) ''testing'' fs1
        of (Inl e, fs2) \<Rightarrow> (Inl e, fs2) | (Inr test_shap_array, fs2) \<Rightarrow>
     (let mean_abs_shap = mean_abs_axis0 (length (columns X_train)) train_shap_array in
     (case assign_column feat_importance mean_abs_shap of Inl e \<Rightarrow> (Inl e, fs2) | Inr rows \<Rightarrow>
       (Inr (), fs2 @ [(path_join (outdir a) ''feature_importance_vs_shap.tsv'',
                        importance_table (sort_values_desc rows))]))))))))))))"

section \<open>The tables written\<close>

text \<open>
  The layout of a per-sample table, the three column names the reporter adds, and what a
  successful call of \<open>output_shap_results\<close> has established about the library's answers.
\<close>

definition shap_table ::
  "string option list \<Rightarrow> real \<Rightarrow> real list \<Rightarrow> string list \<Rightarrow> real list list \<Rightarrow> frame" where
  "shap_table ids b si features a =
     \<lparr>nrows = length ids,
      cols = (''SampleID'', ObjCol ids) #
             (''baseline_value'', NumCol (replicate (length ids) (Fin b))) #
             (''StemSCAPE-SI'', NumCol (map Fin si)) #
             map (\<lambda>j. (features ! j, NumCol (map (\<lambda>r. Fin (r ! j)) a))) [0..<length features]\<rparr>"

definition reserved :: "string list" where
  "reserved = [''SampleID'', ''baseline_value'', ''StemSCAPE-SI'']"

definition explained ::
  "('m, 'e) lib \<Rightarrow> 'm \<Rightarrow> 'e \<Rightarrow> string option list \<Rightarrow> frame \<Rightarrow> real list \<Rightarrow> real list list \<Rightarrow> bool" where
  "explained L model explainer ids X si a =
     (\<exists>sv P. shap_values L explainer X = Inr sv \<and> predict_proba L model X = Inr P \<and>
        column1 P = Inr si \<and> select_shap sv = Inr (NdArray2 a) \<and>
        length a = length ids \<and> list_all (\<lambda>r. length r = length (columns X)) a \<and>
        length si = length ids \<and> set reserved \<inter> set (columns X) = {})"

text \<open>
  The shapes of the library's answers for a matrix of \<open>n\<close> samples and \<open>f\<close> features: the
  attributions of output 1 are there as \<open>n\<close> rows of \<open>f\<close> numbers, and the probabilities
  are \<open>n\<close> rows of at least two numbers.
\<close>

definition shaped :: "nat \<Rightarrow> nat \<Rightarrow> real list list \<Rightarrow> bool" where
  "shaped n f m = (length m = n \<and> list_all (\<lambda>r. length r = f) m)"

definition class1_shaped :: "nat \<Rightarrow> nat \<Rightarrow> shap_out \<Rightarrow> bool" where
  "class1_shaped n f sv =
     (case sv of
        PyList m0 ms \<Rightarrow> (case ms of [] \<Rightarrow> False | m1 # _ \<Rightarrow> shaped n f m1)
      | NdArray3 a \<Rightarrow> length a = n \<and> list_all (\<lambda>r. length r = f \<and> list_all (\<lambda>cs. 1 < length cs) r) a
      | NdArray2 m \<Rightarrow> shaped n f m)"

definition proba_shaped :: "nat \<Rightarrow> real list list \<Rightarrow> bool" where
  "proba_shaped n P = (length P = n \<and> list_all (\<lambda>r. 1 < length r) P)"

definition library_answers :: "('m, 'e) lib \<Rightarrow> 'm \<Rightarrow> 'e \<Rightarrow> nat \<Rightarrow> frame \<Rightarrow> bool" where
  "library_answers L model explainer n X =
     (\<exists>sv P. shap_values L explainer X = Inr sv \<and> class1_shaped n (length (columns X)) sv \<and>
        predict_proba L model X = Inr P \<and> proba_shaped n P)"

section \<open>A small run\<close>

text \<open>
  Two training samples and one scoring sample with a numeric and a categorical feature, a
  scoring table with a label that the training table has not, a table with neither
  identifier nor label, a training table with a missing label, and library functions that
  answer with constants: two classes, a missing cell kept missing by the conversion to
  strings.
\<close>

definition ex_train :: frame where
  "ex_train = \<lparr>nrows = 2,
     cols = [(''id'', ObjCol [Some ''s1'', Some ''s2'']), (''age'', NumCol [Fin 30, Fin 41]),
             (''tissue'', ObjCol [Some ''lung'', Some ''liver'']),
             (''stem'', ObjCol [Some ''yes'', Some ''no''])]\<rparr>"

definition ex_test :: frame where
  "ex_test = \<lparr>nrows = 1,
     cols = [(''id'', ObjCol [Some ''s3'']), (''age'', NumCol [Fin 52]),
             (''tissue'', ObjCol [Some ''lung''])]\<rparr>"

definition ex_unseen :: frame where
  "ex_unseen = \<lparr>nrows = 1,
     cols = [(''id'', ObjCol [Some ''s4'']), (''age'', NumCol [Fin 52]),
             (''tissue'', ObjCol [Some ''lung'']), (''stem'', ObjCol [Some ''maybe''])]\<rparr>"

definition ex_bare :: frame where
  "ex_bare = \<lparr>nrows = 1, cols = [(''age'', NumCol [Fin 52]), (''tissue'', ObjCol [Some ''lung''])]\<rparr>"

definition ex_missing :: frame where
  "ex_missing = \<lparr>nrows = 2,
     cols = [(''id'', ObjCol [Some ''s1'', Some ''s2'']), (''age'', NumCol [Fin 30, Fin 41]),
             (''tissue'', ObjCol [Some ''lung'', Some ''liver'']),
             (''stem'', ObjCol [Some ''yes'', None])]\<rparr>"

text \<open>
  The conversion of a float to a string, given what it makes of NaN; the digits of a
  number play no part in the runs below.
\<close>

definition ex_num_str :: "string option \<Rightarrow> float64 \<Rightarrow> string option" where
  "ex_num_str na x = (case x of NaN \<Rightarrow> na | Fin r \<Rightarrow> Some ''0'')"

definition ex_lib :: "(unit, unit) lib" where
  "ex_lib =
     \<lparr>read_csv = (\<lambda>p. if p = ''data/train.txt'' then Inr ex_train
                      else if p = ''data/test.txt'' then Inr ex_test
                      else if p = ''data/unseen.txt'' then Inr ex_unseen
                      else if p = ''data/bare.txt'' then Inr ex_bare
                      else if p = ''data/missing.txt'' then Inr ex_missing
                      else Inl (LibraryError ''FileNotFoundError'')),
      num_str = ex_num_str None,
      rf_fit = (\<lambda>X y. Inr ()),
      predict_proba = (\<lambda>m X. Inr (replicate (nrows X) [1 / 8, 7 / 8])),
      feature_importances = (\<lambda>m. [1 / 4, 3 / 4]),
      TreeExplainer = (\<lambda>m. Inr ()),
      expected_value = (\<lambda>e. Array1 [3 / 8, 5 / 8]),
      shap_values = (\<lambda>e X. Inr (PyList (replicate (nrows X) [- 3 / 8, 1 / 8])
                                        [replicate (nrows X) [3 / 8, - 1 / 8]]))\<rparr>"

definition ex_args :: args where
  "ex_args = \<lparr>train = ''data/train.txt'', test = ''data/test.txt'', label = ''stem'',
              sample = Some ''id'', outdir = ''out''\<rparr>"

definition ex_matrix :: frame where
  "ex_matrix = \<lparr>nrows = 3,
     cols = [(''age'', NumCol [Fin 30, Fin 41, NaN]),
             (''tissue'', ObjCol [Some ''lung'', Some ''liver'', Some ''lung''])]\<rparr>"

definition ex_X1 :: frame where
  "ex_X1 = \<lparr>nrows = 2, cols = [(''age'', NumCol [Fin 30, Fin 41]), (''tissue'', NumCol [Fin 1, Fin 0])]\<rparr>"

definition ex_X2 :: frame where
  "ex_X2 = \<lparr>nrows = 1, cols = [(''age'', NumCol [Fin 52]), (''tissue'', NumCol [Fin 0])]\<rparr>"

section \<open>The label encoder's codes\<close>

lemma index_of_less: "y \<in> set cs \<Longrightarrow> index_of cs y < length cs"
  by (induction cs) auto

lemma nth_index_of: "y \<in> set cs \<Longrightarrow> cs ! index_of cs y = y"
  by (induction cs) auto

lemma index_of_inj: "a \<in> set cs \<Longrightarrow> b \<in> set cs \<Longrightarrow> (index_of cs a = index_of cs b) = (a = b)"
  by (metis nth_index_of)

lemma set_present: "set (present ys) = {s. Some s \<in> set ys}"
  by (induction ys rule: present.induct) auto

lemma set_np_unique: "set (np_unique ys) = set ys"
proof (rule set_eqI)
  fix x show "(x \<in> set (np_unique ys)) = (x \<in> set ys)"
    by (cases x) (auto simp: np_unique_def set_present)
qed

lemma distinct_np_unique: "distinct (np_unique ys)"
  by (auto simp: np_unique_def distinct_map)

lemma np_unique_two:
  assumes "set ys = {Some a, Some b}" "a < b"
  shows "np_unique ys = [Some a, Some b]"
proof -
  have n: "None \<notin> set ys" using assms(1) by simp
  have "set (present ys) = {a, b}" using assms(1) by (auto simp: set_present)
  then have "sorted_wrt (<) (sort (remdups (present ys)))" "set (sort (remdups (present ys))) = {a, b}"
    by (simp_all add: strict_sorted_iff)
  moreover have "sorted_wrt (<) [a, b]" "set [a, b] = {a, b}" using assms(2) by auto
  ultimately have "sort (remdups (present ys)) = [a, b]"
    by (metis strict_sorted_equal)
  with n show ?thesis by (simp add: np_unique_def)
qed

lemma np_unique_missing:
  assumes "set ys = {Some a, None}"
  shows "np_unique ys = [Some a, None]"
proof -
  have "set (present ys) = {a}" using assms by (auto simp: set_present)
  then have "sorted_wrt (<) (sort (remdups (present ys)))" "set (sort (remdups (present ys))) = {a}"
    by (simp_all add: strict_sorted_iff)
  moreover have "sorted_wrt (<) [a]" "set [a] = {a}" by auto
  ultimately have "sort (remdups (present ys)) = [a]"
    by (metis strict_sorted_equal)
  with assms show ?thesis by (simp add: np_unique_def)
qed

lemma index_of_image:
  assumes "distinct cs"
  shows "index_of cs ` set cs = {0..<length cs}"
proof (rule set_eqI)
  fix k
  show "(k \<in> index_of cs ` set cs) = (k \<in> {0..<length cs})"
  proof
    assume "k \<in> index_of cs ` set cs"
    then show "k \<in> {0..<length cs}" by (auto simp: index_of_less)
  next
    assume k: "k \<in> {0..<length cs}"
    then have m: "cs ! k \<in> set cs" by simp
    have "cs ! index_of cs (cs ! k) = cs ! k" using m by (rule nth_index_of)
    with assms k index_of_less[OF m] have "index_of cs (cs ! k) = k"
      by (simp add: nth_eq_iff_index_eq)
    with m show "k \<in> index_of cs ` set cs" by (metis imageI)
  qed
qed

lemma forest_classes_codes:
  "forest_classes (map (index_of (np_unique ys)) ys) = [0..<length (np_unique ys)]"
proof -
  define xs where "xs = map (index_of (np_unique ys)) ys"
  have "set xs = index_of (np_unique ys) ` set (np_unique ys)"
    by (simp add: xs_def set_np_unique)
  also have "\<dots> = {0..<length (np_unique ys)}"
    using distinct_np_unique by (rule index_of_image)
  finally have s: "set xs = {0..<length (np_unique ys)}" .
  have "forest_classes xs = sorted_list_of_set (set xs)"
    by (simp add: forest_classes_def sorted_list_of_set_sort_remdups)
  also have "\<dots> = [0..<length (np_unique ys)]"
    by (simp only: s sorted_list_of_set_range)
  finally show ?thesis by (simp add: xs_def)
qed

section \<open>What process\_data returns\<close>

lemma process_data_train_Inr:
  assumes "process_data L p lc sc le True = Inr ((ids, X, y_enc), le')"
  shows "\<exists>df y X0. read_csv L p = Inr df \<and> sample_ids (num_str L) df sc = Inr ids \<and>
           lc \<in> set (columns df) \<and> drop_columns df (lc # sample_cols sc) = Inr X0 \<and>
           getitem df lc = Inr y \<and> X = encode_non_numeric (num_str L) X0 \<and>
           y_enc = Some (map (index_of (np_unique (astype_str (num_str L) y))) (astype_str (num_str L) y)) \<and>
           le' = le\<lparr>classes := Some (np_unique (astype_str (num_str L) y))\<rparr>"
  using assms
  by (auto simp: process_data_def Let_def fit_transform_def split: sum.splits if_splits)

lemma process_data_test_Inr:
  assumes "process_data L p lc sc le False = Inr ((ids, X, y_enc), le')"
  shows "le' = le \<and> (\<exists>df X0. read_csv L p = Inr df \<and> sample_ids (num_str L) df sc = Inr ids \<and>
           X = encode_non_numeric (num_str L) X0 \<and>
           (if lc \<in> set (columns df)
            then drop_columns df (lc # sample_cols sc) = Inr X0 \<and>
                 (\<exists>y cs. getitem df lc = Inr y \<and> classes le = Some cs \<and>
                    set (astype_str (num_str L) y) \<subseteq> set cs \<and>
                    y_enc = Some (map (index_of cs) (astype_str (num_str L) y)))
            else drop_columns df (sample_cols sc) = Inr X0 \<and> y_enc = None))"
  using assms
  by (auto simp: process_data_def Let_def transform_def list_ex_iff split: sum.splits if_splits option.splits)

lemma present_append_Some: "present (map Some xs @ zs) = xs @ present zs"
  by (induction xs) simp_all

lemma np_unique_order:
  "sorted_wrt (<) (present (np_unique ys))" "None \<notin> set (butlast (np_unique ys))"
proof -
  have "present (np_unique ys) = sort (remdups (present ys))"
    using present_append_Some[of "sort (remdups (present ys))" "[None]"]
      present_append_Some[of "sort (remdups (present ys))" "[]"]
    by (simp add: np_unique_def)
  then show "sorted_wrt (<) (present (np_unique ys))" by (simp add: strict_sorted_iff)
  show "None \<notin> set (butlast (np_unique ys))"
    by (auto simp: np_unique_def butlast_append dest: in_set_butlastD)
qed

text \<open>
  Claim C10, amended. The training call fits the label map on the training labels as
  \<^verbatim>\<open>astype(str)\<close> gives them: the classes are the distinct strings in strictly ascending
  order and, last, the missing value if a label is missing; each label's code is its
  position among them, and nothing else enters the codes. Every code from 0 up to the
  number of classes occurs, so the forest's classes are these codes in order, and column 1
  of its probabilities is the class with code 1. With two label strings and no missing
  label the greater string gets code 1; with one label string and a missing label the
  missing label gets code 1.
\<close>

theorem positive_class_follows_label_order:
  assumes "process_data L p lc sc le True = Inr ((ids, X, y_enc), le')"
  shows "\<exists>df y cs codes.
           read_csv L p = Inr df \<and> getitem df lc = Inr y \<and>
           classes le' = Some cs \<and> y_enc = Some codes \<and>
           astype_str (num_str L) y =
             (case y of
                NumCol xs \<Rightarrow> map (num_str L) xs
              | ObjCol ss \<Rightarrow> map (\<lambda>x. case x of None \<Rightarrow> num_str L NaN | Some s \<Rightarrow> Some s) ss) \<and>
           cs = map Some (sort (remdups (present (astype_str (num_str L) y)))) @
                  (if None \<in> set (astype_str (num_str L) y) then [None] else []) \<and>
           sorted_wrt (<) (present cs) \<and> None \<notin> set (butlast cs) \<and>
           distinct cs \<and> set cs = set (astype_str (num_str L) y) \<and>
           length codes = length (astype_str (num_str L) y) \<and>
           (\<forall>i < length codes. codes ! i < length cs \<and> cs ! (codes ! i) = astype_str (num_str L) y ! i) \<and>
           forest_classes codes = [0..<length cs] \<and>
           (\<forall>a b. set (astype_str (num_str L) y) = {Some a, Some b} \<and> a < b \<longrightarrow>
              cs = [Some a, Some b] \<and>
              (\<forall>i < length codes. (codes ! i = 1) = (astype_str (num_str L) y ! i = Some b))) \<and>
           (\<forall>a. set (astype_str (num_str L) y) = {Some a, None} \<longrightarrow>
              cs = [Some a, None] \<and>
              (\<forall>i < length codes. (codes ! i = 1) = (astype_str (num_str L) y ! i = None)))"
proof -
  from process_data_train_Inr[OF assms] obtain df y where
    df: "read_csv L p = Inr df" and y: "getitem df lc = Inr y" and
    ye: "y_enc = Some (map (index_of (np_unique (astype_str (num_str L) y))) (astype_str (num_str L) y))" and
    le': "le' = le\<lparr>classes := Some (np_unique (astype_str (num_str L) y))\<rparr>"
    by blast
  define ys where "ys = astype_str (num_str L) y"
  define cs where "cs = np_unique ys"
  define codes where "codes = map (index_of cs) ys"
  have mem: "\<And>i. i < length ys \<Longrightarrow> ys ! i \<in> set cs"
    by (simp add: cs_def set_np_unique)
  have 0: "cs = map Some (sort (remdups (present ys))) @ (if None \<in> set ys then [None] else [])"
    by (simp add: cs_def np_unique_def)
  have 1: "\<forall>i < length codes. codes ! i < length cs \<and> cs ! (codes ! i) = ys ! i"
    by (simp add: codes_def index_of_less nth_index_of mem)
  have 2: "cs = [Some a, Some b] \<and> (\<forall>i < length codes. (codes ! i = 1) = (ys ! i = Some b))"
    if "set ys = {Some a, Some b}" "a < b" for a b
  proof -
    have cs2: "cs = [Some a, Some b]" using that by (simp add: cs_def np_unique_two)
    moreover have "(index_of [Some a, Some b] z = 1) = (z = Some b)" if "z = Some a \<or> z = Some b" for z
      using that \<open>a < b\<close> by auto
    moreover have "ys ! i = Some a \<or> ys ! i = Some b" if "i < length ys" for i
      using nth_mem[OF that] unfolding \<open>set ys = {Some a, Some b}\<close> by simp
    ultimately show ?thesis by (simp add: codes_def)
  qed
  have 3: "cs = [Some a, None] \<and> (\<forall>i < length codes. (codes ! i = 1) = (ys ! i = None))"
    if "set ys = {Some a, None}" for a
  proof -
    have cs2: "cs = [Some a, None]" using that by (simp add: cs_def np_unique_missing)
    moreover have "(index_of [Some a, None] z = 1) = (z = None)" if "z = Some a \<or> z = None" for z
      using that by auto
    moreover have "ys ! i = Some a \<or> ys ! i = None" if "i < length ys" for i
      using nth_mem[OF that] unfolding \<open>set ys = {Some a, None}\<close> by simp
    ultimately show ?thesis by (simp add: codes_def)
  qed
  have 4: "forest_classes codes = [0..<length cs]"
    unfolding codes_def cs_def by (rule forest_classes_codes)
  have 5: "sorted_wrt (<) (present cs)" "None \<notin> set (butlast cs)" "distinct cs" "set cs = set ys"
    "length codes = length ys"
    by (simp_all add: cs_def np_unique_order distinct_np_unique set_np_unique codes_def)
  have 6: "classes le' = Some cs" "y_enc = Some codes"
    by (simp_all add: le' ye cs_def codes_def ys_def)
  have 9: "ys = (case y of
                NumCol xs \<Rightarrow> map (num_str L) xs
              | ObjCol ss \<Rightarrow> map (\<lambda>x. case x of None \<Rightarrow> num_str L NaN | Some s \<Rightarrow> Some s) ss)"
    by (simp add: ys_def astype_str_def)
  have 7: "\<forall>a b. set ys = {Some a, Some b} \<and> a < b \<longrightarrow>
              cs = [Some a, Some b] \<and> (\<forall>i < length codes. (codes ! i = 1) = (ys ! i = Some b))"
    using 2 by blast
  have 8: "\<forall>a. set ys = {Some a, None} \<longrightarrow>
              cs = [Some a, None] \<and> (\<forall>i < length codes. (codes ! i = 1) = (ys ! i = None))"
    using 3 by blast
  show ?thesis
    apply (rule exI[of _ df], rule exI[of _ y], rule exI[of _ cs], rule exI[of _ codes])
    unfolding ys_def[symmetric]
    by (intro conjI df y 0 1 4 5 6 7 8 9)
qed

lemma getitem_Inr_iff: "(\<exists>v. getitem df c = Inr v) = (c \<in> set (columns df))"
  by (auto simp: getitem_def columns_def map_of_eq_None_iff split: option.splits)
     (metis map_of_eq_None_iff not_Some_eq)+

lemma sample_ids_ok:
  assumes "set (sample_cols sc) \<subseteq> set (columns df)"
  shows "\<exists>ids. sample_ids ns df sc = Inr ids"
proof (cases "sample_cols sc")
  case Nil
  then show ?thesis by (simp add: sample_ids_def)
next
  case (Cons c cs)
  with assms have "c \<in> set (columns df)" by simp
  then obtain v where "getitem df c = Inr v" using getitem_Inr_iff by blast
  with Cons show ?thesis by (simp add: sample_ids_def)
qed

lemma drop_columns_ok:
  assumes "set cs \<subseteq> set (columns df)"
  shows "drop_columns df cs = Inr (df\<lparr>cols := filter (\<lambda>(n, w). n \<notin> set cs) (cols df)\<rparr>)"
proof -
  have "filter (\<lambda>c. c \<notin> set (columns df)) cs = []"
    using assms by (auto simp: filter_empty_conv)
  then show ?thesis by (simp add: drop_columns_def)
qed

lemma process_data_no_label_train:
  assumes "read_csv L p = Inr df" and "lc \<notin> set (columns df)"
    and "set (sample_cols sc) \<subseteq> set (columns df)"
  shows "process_data L p lc sc le True = Inl (ValueError (missing_label_message (basename p) lc))"
proof -
  from sample_ids_ok[OF assms(3)] obtain ids where "sample_ids (num_str L) df sc = Inr ids" by blast
  with assms(1,2) show ?thesis by (simp add: process_data_def)
qed

lemma process_data_no_label_test:
  assumes "read_csv L p = Inr df" and "lc \<notin> set (columns df)"
    and "set (sample_cols sc) \<subseteq> set (columns df)"
  shows "\<exists>ids. sample_ids (num_str L) df sc = Inr ids \<and>
           process_data L p lc sc le False =
             Inr ((ids, encode_non_numeric (num_str L)
                          (df\<lparr>cols := filter (\<lambda>(n, w). n \<notin> set (sample_cols sc)) (cols df)\<rparr>), None), le)"
proof -
  from sample_ids_ok[OF assms(3)] obtain ids where "sample_ids (num_str L) df sc = Inr ids" by blast
  with assms(1,2) drop_columns_ok[OF assms(3)] show ?thesis by (simp add: process_data_def)
qed

lemma main_train_error:
  "process_data L (train a) (label a) (sample a) LabelEncoder True = Inl e \<Longrightarrow> main L a = (Inl e, [])"
  by (simp add: main_def)

lemma main_test_error:
  "process_data L (train a) (label a) (sample a) LabelEncoder True = Inr ((ids, X, y), le1) \<Longrightarrow>
   process_data L (test a) (label a) (sample a) le1 False = Inl e \<Longrightarrow> main L a = (Inl e, [])"
  by (simp add: main_def)

text \<open>
  Claim C2, amended. A training table without the label column, which has the identifier
  column when one is named, makes the loader fail with the error whose message holds the
  file's base name and the label column's name; \<open>main\<close> stops there, and no file has been
  written.
\<close>

theorem missing_training_label_is_configuration_error:
  assumes "read_csv L (train a) = Inr df" and "label a \<notin> set (columns df)"
    and "set (sample_cols (sample a)) \<subseteq> set (columns df)"
  shows "process_data L (train a) (label a) (sample a) le True =
           Inl (ValueError (missing_label_message (basename (train a)) (label a))) \<and>
         main L a = (Inl (ValueError (missing_label_message (basename (train a)) (label a))), []) \<and>
         (\<exists>u v w. missing_label_message (basename (train a)) (label a) =
                     u @ basename (train a) @ v @ label a @ w)"
proof -
  have 1: "process_data L (train a) (label a) (sample a) le True =
             Inl (ValueError (missing_label_message (basename (train a)) (label a)))" for le
    using assms by (rule process_data_no_label_train)
  have 2: "main L a = (Inl (ValueError (missing_label_message (basename (train a)) (label a))), [])"
    using 1 by (rule main_train_error)
  have 3: "\<exists>u v w. missing_label_message (basename (train a)) (label a) =
                     u @ basename (train a) @ v @ label a @ w"
    unfolding missing_label_message_def by (metis append.assoc)
  from 1 2 3 show ?thesis by blast
qed

text \<open>
  Claim C3. The training call stores the sorted distinct training labels in the encoder; the
  scoring call returns the encoder it was given. A scoring table with a label value that is
  not among the training labels makes the scoring call, and so the run, fail, before any
  file is written.
\<close>

theorem scoring_labels_reuse_training_map:
  assumes "read_csv L (train a) = Inr dtr" and "getitem dtr (label a) = Inr ytr"
    and "read_csv L (test a) = Inr dte" and "getitem dte (label a) = Inr yte"
    and "\<not> set (astype_str (num_str L) yte) \<subseteq> set (astype_str (num_str L) ytr)"
  shows "isl (fst (main L a)) \<and> snd (main L a) = [] \<and>
         (case process_data L (train a) (label a) (sample a) le True of
            Inl e \<Rightarrow> True
          | Inr (r, le') \<Rightarrow> classes le' = Some (np_unique (astype_str (num_str L) ytr)) \<and>
                            isl (process_data L (test a) (label a) (sample a) le' False)) \<and>
         (case process_data L (test a) (label a) (sample a) le False of
            Inl e \<Rightarrow> True
          | Inr (r, le') \<Rightarrow> le' = le)"
proof -
  have fitted: "classes le' = Some (np_unique (astype_str (num_str L) ytr))"
    if "process_data L (train a) (label a) (sample a) le0 True = Inr (r, le')" for le0 r le'
  proof -
    obtain ids X y where r: "r = (ids, X, y)" by (cases r) auto
    from process_data_train_Inr[OF that[unfolded r]] assms(1,2) show ?thesis by auto
  qed
  have fails: "isl (process_data L (test a) (label a) (sample a) le' False)"
    if "classes le' = Some (np_unique (astype_str (num_str L) ytr))" for le'
  proof (rule ccontr)
    assume "\<not> isl (process_data L (test a) (label a) (sample a) le' False)"
    then obtain ids X y le2 where
      "process_data L (test a) (label a) (sample a) le' False = Inr ((ids, X, y), le2)"
      by (cases "process_data L (test a) (label a) (sample a) le' False") auto
    from process_data_test_Inr[OF this] assms(3,4) that
    have "set (astype_str (num_str L) yte) \<subseteq> set (np_unique (astype_str (num_str L) ytr))"
      using getitem_Inr_iff[of dte "label a"] by (auto split: if_splits)
    with assms(5) show False by (simp add: set_np_unique)
  qed
  have unchanged: "le' = le"
    if "process_data L (test a) (label a) (sample a) le False = Inr (r, le')" for r le'
  proof -
    obtain ids X y where r: "r = (ids, X, y)" by (cases r) auto
    from process_data_test_Inr[OF that[unfolded r]] show ?thesis by simp
  qed
  have main_fails: "isl (fst (main L a)) \<and> snd (main L a) = []"
  proof (cases "process_data L (train a) (label a) (sample a) LabelEncoder True")
    case (Inl e)
    then show ?thesis by (simp add: main_train_error)
  next
    case (Inr q)
    obtain ids X y le1 where q: "q = ((ids, X, y), le1)" by (cases q) auto
    from fitted[OF Inr[unfolded q]] have "isl (process_data L (test a) (label a) (sample a) le1 False)"
      by (rule fails)
    then obtain e where "process_data L (test a) (label a) (sample a) le1 False = Inl e"
      by (cases "process_data L (test a) (label a) (sample a) le1 False") auto
    from main_test_error[OF Inr[unfolded q] this] show ?thesis by simp
  qed
  show ?thesis
    using main_fails fitted fails unchanged
    by (auto split: sum.splits)
qed

section \<open>The feature encoder\<close>

lemma encode_step_distinct:
  assumes "distinct (columns X)" and "a \<in> set (columns X)"
  shows "encode_step ns a X =
           X\<lparr>cols := map (\<lambda>(n, w). (n, if n = a then encode_column ns w else w)) (cols X)\<rparr>"
proof -
  from assms(2) obtain c where c: "(a, c) \<in> set (cols X)" by (auto simp: columns_def)
  with assms(1) have g: "getitem X a = Inr c" by (simp add: getitem_def columns_def)
  have "w = c" if "(a, w) \<in> set (cols X)" for w
    using assms(1)[unfolded columns_def] that c by (rule eq_key_imp_eq_value)
  then have "map (\<lambda>(n, w). if n = a then (n, encode_column ns c) else (n, w)) (cols X) =
             map (\<lambda>(n, w). (n, if n = a then encode_column ns w else w)) (cols X)"
    by (intro map_cong refl) auto
  with g assms(2) show ?thesis by (simp add: encode_step_def setitem_def)
qed

lemma fold_encode_step:
  assumes "distinct (columns X)" and "distinct names" and "set names \<subseteq> set (columns X)"
  shows "fold (encode_step ns) names X =
           X\<lparr>cols := map (\<lambda>(n, w). (n, if n \<in> set names then encode_column ns w else w)) (cols X)\<rparr>"
  using assms
proof (induction names arbitrary: X)
  case Nil
  then show ?case by simp
next
  case (Cons a names)
  let ?X1 = "X\<lparr>cols := map (\<lambda>(n, w). (n, if n = a then encode_column ns w else w)) (cols X)\<rparr>"
  have s: "encode_step ns a X = ?X1"
    using Cons.prems by (simp add: encode_step_distinct)
  have c1: "columns ?X1 = columns X"
    by (simp add: columns_def comp_def case_prod_unfold)
  have "fold (encode_step ns) names ?X1 =
          ?X1\<lparr>cols := map (\<lambda>(n, w). (n, if n \<in> set names then encode_column ns w else w)) (cols ?X1)\<rparr>"
    using Cons.prems by (intro Cons.IH) (simp_all add: c1)
  also have "\<dots> = X\<lparr>cols := map (\<lambda>(n, w). (n, if n \<in> set (a # names) then encode_column ns w else w)) (cols X)\<rparr>"
    using Cons.prems(2) by (auto simp: comp_def case_prod_unfold)
  finally show ?case by (simp add: s)
qed

lemma non_numeric_columns_props:
  assumes "distinct (columns X)"
  shows "distinct (non_numeric_columns X)" and "set (non_numeric_columns X) \<subseteq> set (columns X)"
    and "(n, c) \<in> set (cols X) \<Longrightarrow> (n \<in> set (non_numeric_columns X)) = (\<not> is_numeric c)"
proof -
  show "distinct (non_numeric_columns X)"
    using assms unfolding non_numeric_columns_def columns_def by (rule distinct_map_filter)
  show "set (non_numeric_columns X) \<subseteq> set (columns X)"
    by (auto simp: non_numeric_columns_def columns_def)
  show "(n \<in> set (non_numeric_columns X)) = (\<not> is_numeric c)" if "(n, c) \<in> set (cols X)"
  proof -
    have "w = c" if "(n, w) \<in> set (cols X)" for w
      using assms[unfolded columns_def] that \<open>(n, c) \<in> set (cols X)\<close> by (rule eq_key_imp_eq_value)
    moreover have "(n \<in> set (non_numeric_columns X)) = (\<exists>w. (n, w) \<in> set (cols X) \<and> \<not> is_numeric w)"
      unfolding non_numeric_columns_def by (simp add: image_iff)
    ultimately show ?thesis using that by blast
  qed
qed

lemma encode_non_numeric_cols:
  assumes "distinct (columns X)"
  shows "encode_non_numeric ns X =
           X\<lparr>cols := map (\<lambda>(n, c). (n, if is_numeric c then c else encode_column ns c)) (cols X)\<rparr>"
proof -
  have "encode_non_numeric ns X =
          X\<lparr>cols := map (\<lambda>(n, w). (n, if n \<in> set (non_numeric_columns X) then encode_column ns w else w)) (cols X)\<rparr>"
    unfolding encode_non_numeric_def using non_numeric_columns_props(1,2)[OF assms] assms
    by (intro fold_encode_step)
  moreover have "map (\<lambda>(n, w). (n, if n \<in> set (non_numeric_columns X) then encode_column ns w else w)) (cols X) =
                 map (\<lambda>(n, c). (n, if is_numeric c then c else encode_column ns c)) (cols X)"
    using non_numeric_columns_props(3)[OF assms] by (auto simp: map_eq_conv)
  ultimately show ?thesis by simp
qed

lemma columns_encode_non_numeric: "columns (encode_non_numeric ns X) = columns X"
proof -
  have s: "columns (encode_step ns a X) = columns X" for a X
  proof (cases "getitem X a")
    case (Inl e)
    then show ?thesis by (simp add: encode_step_def)
  next
    case (Inr c)
    then have "a \<in> set (columns X)" using getitem_Inr_iff by blast
    with Inr show ?thesis
      by (simp add: encode_step_def setitem_def) (simp add: columns_def comp_def case_prod_unfold)
  qed
  have "columns (fold (encode_step ns) names X) = columns X" for names
    by (induction names arbitrary: X) (simp_all add: s)
  then show ?thesis by (simp add: encode_non_numeric_def)
qed

lemma nrows_encode_non_numeric: "nrows (encode_non_numeric ns X) = nrows X"
proof -
  have s: "nrows (encode_step ns a X) = nrows X" for a X
    by (auto simp: encode_step_def setitem_def split: sum.splits)
  have "nrows (fold (encode_step ns) names X) = nrows X" for names
    by (induction names arbitrary: X) (simp_all add: s)
  then show ?thesis by (simp add: encode_non_numeric_def)
qed

lemma encode_column_ObjCol:
  "encode_column ns (ObjCol ss) =
     NumCol (map (\<lambda>k. Fin (real k))
       (map (index_of (np_unique (astype_str ns (ObjCol ss)))) (astype_str ns (ObjCol ss))))"
  by (simp add: encode_column_def fit_transform_def Let_def)

lemma codes_props:
  assumes "codes = map (index_of (np_unique ss)) ss"
  shows "length codes = length ss"
    and "i < length ss \<Longrightarrow> i' < length ss \<Longrightarrow> (codes ! i = codes ! i') = (ss ! i = ss ! i')"
    and "i < length ss \<Longrightarrow> codes ! i < card (set ss)"
proof -
  show "length codes = length ss" by (simp add: assms)
  show "(codes ! i = codes ! i') = (ss ! i = ss ! i')" if "i < length ss" "i' < length ss"
    using that by (simp add: assms index_of_inj set_np_unique)
  show "codes ! i < card (set ss)" if "i < length ss"
  proof -
    have "index_of (np_unique ss) (ss ! i) < length (np_unique ss)"
      using that by (simp add: index_of_less set_np_unique)
    also have "length (np_unique ss) = card (set ss)"
      by (metis distinct_card distinct_np_unique set_np_unique)
    finally show ?thesis using that by (simp add: assms)
  qed
qed

lemma astype_str_inj:
  assumes "\<forall>s. ns NaN = Some s \<longrightarrow> Some s \<notin> set ss"
  shows "inj_on (\<lambda>x. case x of None \<Rightarrow> ns NaN | Some s \<Rightarrow> Some s) (set ss)"
proof (rule inj_onI)
  fix x y
  assume x: "x \<in> set ss" and y: "y \<in> set ss"
    and e: "(case x of None \<Rightarrow> ns NaN | Some s \<Rightarrow> Some s) = (case y of None \<Rightarrow> ns NaN | Some s \<Rightarrow> Some s)"
  show "x = y"
  proof (cases x)
    case None
    note xn = None
    show ?thesis
    proof (cases y)
      case None
      with xn show ?thesis by simp
    next
      case (Some t)
      with xn e have "ns NaN = Some t" by simp
      with assms y Some show ?thesis by blast
    qed
  next
    case (Some t)
    note xs = Some
    show ?thesis
    proof (cases y)
      case None
      with xs e have "ns NaN = Some t" by simp
      with assms x xs show ?thesis by blast
    next
      case (Some u)
      with xs e show ?thesis by simp
    qed
  qed
qed

lemma codes_props_cells:
  assumes "codes = map (index_of (np_unique strs)) strs"
    and "strs = map (\<lambda>x. case x of None \<Rightarrow> ns NaN | Some s \<Rightarrow> Some s) ss"
    and "\<forall>s. ns NaN = Some s \<longrightarrow> Some s \<notin> set ss"
  shows "i < length ss \<Longrightarrow> i' < length ss \<Longrightarrow> (codes ! i = codes ! i') = (ss ! i = ss ! i')"
    and "i < length ss \<Longrightarrow> codes ! i < card (set ss)"
proof -
  note inj = astype_str_inj[where ns = ns and ss = ss, OF assms(3)]
  have l: "length strs = length ss" by (simp add: assms(2))
  show "(codes ! i = codes ! i') = (ss ! i = ss ! i')" if "i < length ss" "i' < length ss"
  proof -
    have "(codes ! i = codes ! i') = (strs ! i = strs ! i')"
      using codes_props(2)[OF assms(1), of i i'] that l by simp
    also have "\<dots> = (ss ! i = ss ! i')"
      using that inj_on_eq_iff[OF inj, of "ss ! i" "ss ! i'"] by (simp add: assms(2))
    finally show ?thesis .
  qed
  show "codes ! i < card (set ss)" if "i < length ss"
  proof -
    have "codes ! i < card (set strs)"
      using codes_props(3)[OF assms(1), of i] that l by simp
    also have "card (set strs) = card (set ss)"
      using card_image[OF inj] by (simp add: assms(2))
    finally show ?thesis .
  qed
qed

lemma process_data_encodes:
  assumes "process_data L p lc sc le is_train = Inr ((ids, X, y), le')"
  shows "\<exists>df X0. read_csv L p = Inr df \<and>
           drop_columns df (if lc \<in> set (columns df) then lc # sample_cols sc else sample_cols sc) = Inr X0 \<and>
           X = encode_non_numeric (num_str L) X0"
proof (cases is_train)
  case True
  with process_data_train_Inr[of L p lc sc le ids X y le'] assms show ?thesis by auto
next
  case False
  with process_data_test_Inr[of L p lc sc le ids X y le'] assms show ?thesis
    by (auto split: if_splits)
qed

text \<open>
  Claim C7. On a feature matrix (its column names distinct), \<open>encode_non_numeric\<close> keeps
  the names, their order and the row count; a numeric column comes back as it was; a
  non-numeric column comes back as the codes of a fresh encoder fitted on that column alone,
  on its cells as \<^verbatim>\<open>astype(str)\<close> gives them: natural numbers below the number of
  distinct values, equal exactly where the values are equal. The values are the cells
  themselves unless the conversion turns a missing cell into a string that the column also
  holds. Every successful call of \<open>process_data\<close>, for the training table or the scoring
  table, returns the matrix this function makes of the table without its dropped columns.
\<close>

theorem encode_non_numeric_codes:
  assumes "distinct (columns X)"
  shows "columns (encode_non_numeric ns X) = columns X \<and>
         nrows (encode_non_numeric ns X) = nrows X \<and>
         length (cols (encode_non_numeric ns X)) = length (cols X) \<and>
         (\<forall>j < length (cols X).
            case snd (cols X ! j) of
              NumCol xs \<Rightarrow> cols (encode_non_numeric ns X) ! j = cols X ! j
            | ObjCol ss \<Rightarrow>
                (\<exists>codes strs. cols (encode_non_numeric ns X) ! j =
                            (fst (cols X ! j), NumCol (map (\<lambda>k. Fin (real k)) codes)) \<and>
                   strs = map (\<lambda>x. case x of None \<Rightarrow> ns NaN | Some s \<Rightarrow> Some s) ss \<and>
                   codes = snd (fit_transform LabelEncoder strs) \<and>
                   length codes = length ss \<and>
                   (\<forall>i < length ss. \<forall>i' < length ss. (codes ! i = codes ! i') = (strs ! i = strs ! i')) \<and>
                   (\<forall>i < length ss. codes ! i < card (set strs)) \<and>
                   ((\<forall>s. ns NaN = Some s \<longrightarrow> Some s \<notin> set ss) \<longrightarrow>
                      (\<forall>i < length ss. \<forall>i' < length ss. (codes ! i = codes ! i') = (ss ! i = ss ! i')) \<and>
                      (\<forall>i < length ss. codes ! i < card (set ss))))) \<and>
         (\<forall>ids X' y le'.
            process_data L p lc sc le is_train = Inr ((ids, X', y), le') \<longrightarrow>
            (\<exists>df X0. read_csv L p = Inr df \<and>
               drop_columns df (if lc \<in> set (columns df) then lc # sample_cols sc else sample_cols sc) = Inr X0 \<and>
               X' = encode_non_numeric (num_str L) X0))"
proof -
  have e: "cols (encode_non_numeric ns X) =
             map (\<lambda>(n, c). (n, if is_numeric c then c else encode_column ns c)) (cols X)"
    by (simp add: encode_non_numeric_cols[OF assms])
  have "case snd (cols X ! j) of
          NumCol xs \<Rightarrow> cols (encode_non_numeric ns X) ! j = cols X ! j
        | ObjCol ss \<Rightarrow>
            (\<exists>codes strs. cols (encode_non_numeric ns X) ! j =
                        (fst (cols X ! j), NumCol (map (\<lambda>k. Fin (real k)) codes)) \<and>
               strs = map (\<lambda>x. case x of None \<Rightarrow> ns NaN | Some s \<Rightarrow> Some s) ss \<and>
               codes = snd (fit_transform LabelEncoder strs) \<and>
               length codes = length ss \<and>
               (\<forall>i < length ss. \<forall>i' < length ss. (codes ! i = codes ! i') = (strs ! i = strs ! i')) \<and>
               (\<forall>i < length ss. codes ! i < card (set strs)) \<and>
               ((\<forall>s. ns NaN = Some s \<longrightarrow> Some s \<notin> set ss) \<longrightarrow>
                  (\<forall>i < length ss. \<forall>i' < length ss. (codes ! i = codes ! i') = (ss ! i = ss ! i')) \<and>
                  (\<forall>i < length ss. codes ! i < card (set ss))))"
    if j: "j < length (cols X)" for j
  proof (cases "snd (cols X ! j)")
    case (NumCol xs)
    then show ?thesis using j by (simp add: e is_numeric_def case_prod_unfold prod_eq_iff)
  next
    case (ObjCol ss)
    define strs where "strs = map (\<lambda>x. case x of None \<Rightarrow> ns NaN | Some s \<Rightarrow> Some s) ss"
    define codes where "codes = map (index_of (np_unique strs)) strs"
    have a: "astype_str ns (ObjCol ss) = strs" by (simp add: astype_str_def strs_def)
    have l: "length strs = length ss" by (simp add: strs_def)
    have 1: "cols (encode_non_numeric ns X) ! j = (fst (cols X ! j), NumCol (map (\<lambda>k. Fin (real k)) codes))"
      using j ObjCol by (simp add: e is_numeric_def case_prod_unfold encode_column_ObjCol a codes_def)
    have 2: "codes = snd (fit_transform LabelEncoder strs)"
      by (simp add: codes_def fit_transform_def Let_def)
    have 3: "length codes = length ss" by (simp add: codes_def l)
    have 4: "\<forall>i < length ss. \<forall>i' < length ss. (codes ! i = codes ! i') = (strs ! i = strs ! i')"
      using codes_props(2)[OF codes_def] l by simp
    have 5: "\<forall>i < length ss. codes ! i < card (set strs)"
      using codes_props(3)[OF codes_def] l by simp
    have 6: "(\<forall>s. ns NaN = Some s \<longrightarrow> Some s \<notin> set ss) \<longrightarrow>
                  (\<forall>i < length ss. \<forall>i' < length ss. (codes ! i = codes ! i') = (ss ! i = ss ! i')) \<and>
                  (\<forall>i < length ss. codes ! i < card (set ss))"
      using codes_props_cells[where ns = ns and ss = ss, OF codes_def strs_def] by blast
    have "\<exists>codes strs. cols (encode_non_numeric ns X) ! j =
                        (fst (cols X ! j), NumCol (map (\<lambda>k. Fin (real k)) codes)) \<and>
               strs = map (\<lambda>x. case x of None \<Rightarrow> ns NaN | Some s \<Rightarrow> Some s) ss \<and>
               codes = snd (fit_transform LabelEncoder strs) \<and>
               length codes = length ss \<and>
               (\<forall>i < length ss. \<forall>i' < length ss. (codes ! i = codes ! i') = (strs ! i = strs ! i')) \<and>
               (\<forall>i < length ss. codes ! i < card (set strs)) \<and>
               ((\<forall>s. ns NaN = Some s \<longrightarrow> Some s \<notin> set ss) \<longrightarrow>
                  (\<forall>i < length ss. \<forall>i' < length ss. (codes ! i = codes ! i') = (ss ! i = ss ! i')) \<and>
                  (\<forall>i < length ss. codes ! i < card (set ss)))"
      by (rule exI[of _ codes], rule exI[of _ strs]) (intro conjI 1 strs_def 2 3 4 5 6)
    then show ?thesis by (simp only: ObjCol column.case)
  qed
  moreover have "length (cols (encode_non_numeric ns X)) = length (cols X)"
    by (simp add: e)
  moreover have "\<forall>ids X' y le'.
            process_data L p lc sc le is_train = Inr ((ids, X', y), le') \<longrightarrow>
            (\<exists>df X0. read_csv L p = Inr df \<and>
               drop_columns df (if lc \<in> set (columns df) then lc # sample_cols sc else sample_cols sc) = Inr X0 \<and>
               X' = encode_non_numeric (num_str L) X0)"
    using process_data_encodes by blast
  ultimately show ?thesis
    using columns_encode_non_numeric[of ns X] nrows_encode_non_numeric[of ns X] by blast
qed

lemma fold_heap_step:
  assumes "r < length h"
  shows "fold (heap_step ns r) names h = h[r := fold (encode_step ns) names (h ! r)]"
  using assms
proof (induction names arbitrary: h)
  case Nil
  then show ?case by simp
next
  case (Cons a names)
  let ?h1 = "h[r := encode_step ns a (h ! r)]"
  have s: "heap_step ns r a h = ?h1" using Cons.prems by (simp add: heap_step_def)
  have "fold (heap_step ns r) names ?h1 = ?h1[r := fold (encode_step ns) names (?h1 ! r)]"
    using Cons.prems by (intro Cons.IH) simp
  with Cons.prems show ?case by (simp add: s)
qed

lemma encode_non_numeric_h_eq:
  "r < length h \<Longrightarrow> encode_non_numeric_h ns r h = (r, h[r := encode_non_numeric ns (h ! r)])"
  by (simp add: encode_non_numeric_h_def fold_heap_step encode_non_numeric_def)

lemma process_data_h_eq:
  "process_data_h L p lc sc le tr h =
     (case read_csv L p of Inl e \<Rightarrow> Inl e | Inr loaded \<Rightarrow>
     (case process_data L p lc sc le tr of Inl e \<Rightarrow> Inl e
      | Inr ((ids, X, y), le') \<Rightarrow> Inr (((ids, Suc (length h), y), le'), h @ [loaded, X])))"
  by (auto simp: process_data_h_def process_data_def new_object_def Let_def nth_append
        encode_non_numeric_h_eq list_update_append split: sum.splits prod.splits)

text \<open>
  Claim C9, amended. The encoder works on the object it is given: afterwards the object at
  that address holds the encoded matrix, the address returned is the one passed in, every
  other object is as before, and a matrix with numeric columns only is left as it was. In
  \<open>process_data\<close> the matrix is a new object: after a successful call the store holds what
  it held, then the table as it was read, then the encoded matrix, which is the frame the
  function returns.
\<close>

theorem encoder_overwrites_given_matrix:
  assumes "r < length h"
  shows "encode_non_numeric_h ns r h = (r, h[r := encode_non_numeric ns (h ! r)]) \<and>
         (list_all (\<lambda>(n, c). is_numeric c) (cols (h ! r)) \<longrightarrow> snd (encode_non_numeric_h ns r h) = h) \<and>
         (\<forall>ids X y le' h'.
            process_data_h L p lc sc le tr h = Inr (((ids, X, y), le'), h') \<longrightarrow>
            (\<exists>loaded dropped.
               read_csv L p = Inr loaded \<and>
               drop_columns loaded (if lc \<in> set (columns loaded) then lc # sample_cols sc else sample_cols sc)
                 = Inr dropped \<and>
               h' = h @ [loaded, encode_non_numeric (num_str L) dropped] \<and>
               X = Suc (length h) \<and>
               process_data L p lc sc le tr = Inr ((ids, h' ! X, y), le')))"
proof -
  have 1: "encode_non_numeric_h ns r h = (r, h[r := encode_non_numeric ns (h ! r)])"
    using assms by (rule encode_non_numeric_h_eq)
  have "non_numeric_columns (h ! r) = []" if "list_all (\<lambda>(n, c). is_numeric c) (cols (h ! r))"
    using that by (auto simp: non_numeric_columns_def list_all_iff filter_empty_conv)
  then have 2: "list_all (\<lambda>(n, c). is_numeric c) (cols (h ! r)) \<longrightarrow> snd (encode_non_numeric_h ns r h) = h"
    using assms by (auto simp: encode_non_numeric_h_def)
  have 3: "\<exists>loaded dropped.
               read_csv L p = Inr loaded \<and>
               drop_columns loaded (if lc \<in> set (columns loaded) then lc # sample_cols sc else sample_cols sc)
                 = Inr dropped \<and>
               h' = h @ [loaded, encode_non_numeric (num_str L) dropped] \<and>
               X = Suc (length h) \<and>
               process_data L p lc sc le tr = Inr ((ids, h' ! X, y), le')"
    if "process_data_h L p lc sc le tr h = Inr (((ids, X, y), le'), h')" for ids X y le' h'
  proof -
    from that obtain loaded X1 where
      l: "read_csv L p = Inr loaded" and
      pd: "process_data L p lc sc le tr = Inr ((ids, X1, y), le')" and
      X: "X = Suc (length h)" and h': "h' = h @ [loaded, X1]"
      by (auto simp: process_data_h_eq split: sum.splits)
    from process_data_encodes[OF pd] l obtain dropped where
      "drop_columns loaded (if lc \<in> set (columns loaded) then lc # sample_cols sc else sample_cols sc)
         = Inr dropped" "X1 = encode_non_numeric (num_str L) dropped"
      by auto
    with l pd X h' show ?thesis by (simp add: nth_append)
  qed
  from 1 2 3 show ?thesis by blast
qed

section \<open>The reporter\<close>

lemma columns_DataFrame:
  "DataFrame d cs ids = Inr df \<Longrightarrow> columns df = cs \<and> nrows df = length ids"
  by (auto simp: DataFrame_def columns_def comp_def map_nth split: shap_out.splits if_splits)

lemma DataFrame_Inr:
  "DataFrame d cs ids = Inr df \<Longrightarrow>
     \<exists>m. d = NdArray2 m \<and> length m = length ids \<and> list_all (\<lambda>r. length r = length cs) m \<and>
       df = \<lparr>nrows = length ids, cols = map (\<lambda>j. (cs ! j, NumCol (map (\<lambda>r. Fin (r ! j)) m))) [0..<length cs]\<rparr>"
  by (auto simp: DataFrame_def split: shap_out.splits if_splits)

lemma output_shap_results_Inl:
  "output_shap_results L ids X m e b d name fs = (Inl err, fs') \<Longrightarrow> fs' = fs"
  by (auto simp: output_shap_results_def split: sum.splits)

lemma output_shap_results_Inr:
  assumes "output_shap_results L ids X m e b d name fs = (Inr a, fs')"
  shows "\<exists>si. explained L m e ids X si a \<and>
           fs' = fs @ [(path_join d (name @ ''_shap.tsv''), shap_table ids b si (columns X) a)]"
proof -
  from assms obtain sv P si sa df0 df1 df2 df3 where
    sv: "shap_values L e X = Inr sv" and P: "predict_proba L m X = Inr P" and
    si: "column1 P = Inr si" and sa: "select_shap sv = Inr sa" and
    df0: "DataFrame sa (columns X) ids = Inr df0" and
    df1: "df_insert df0 0 ''SampleID'' (ObjCol ids) = Inr df1" and
    df2: "df_insert df1 1 ''baseline_value'' (NumCol (replicate (nrows df1) (Fin b))) = Inr df2" and
    df3: "df_insert df2 2 ''StemSCAPE-SI'' (NumCol (map Fin si)) = Inr df3" and
    a: "a = array2 sa" and fs': "fs' = fs @ [(path_join d (name @ ''_shap.tsv''), df3)]"
    by (auto simp: output_shap_results_def split: sum.splits)
  from DataFrame_Inr[OF df0] obtain m0 where
    m0: "sa = NdArray2 m0" "length m0 = length ids" "list_all (\<lambda>r. length r = length (columns X)) m0"
    and df0_eq: "df0 = \<lparr>nrows = length ids,
        cols = map (\<lambda>j. (columns X ! j, NumCol (map (\<lambda>r. Fin (r ! j)) m0))) [0..<length (columns X)]\<rparr>"
    by blast
  have am: "a = m0" by (simp add: a m0(1) array2_def)
  have c0: "columns df0 = columns X" using columns_DataFrame[OF df0] by simp
  from df1 have n1: "''SampleID'' \<notin> set (columns X)" and
    df1_eq: "df1 = df0\<lparr>cols := (''SampleID'', ObjCol ids) # cols df0\<rparr>"
    by (auto simp: df_insert_def c0 split: if_splits)
  have c1: "columns df1 = ''SampleID'' # columns X" by (simp add: df1_eq columns_def c0[unfolded columns_def])
  from df2 have n2: "''baseline_value'' \<notin> set (columns X)" and
    df2_eq: "df2 = df1\<lparr>cols := take 1 (cols df1) @ [(''baseline_value'', NumCol (replicate (nrows df1) (Fin b)))] @ drop 1 (cols df1)\<rparr>"
    by (auto simp: df_insert_def c1 split: if_splits)
  have c2: "columns df2 = ''SampleID'' # ''baseline_value'' # columns X"
    by (simp add: df2_eq df1_eq columns_def c0[unfolded columns_def])
  from df3 have n3: "''StemSCAPE-SI'' \<notin> set (columns X)" and ls: "length si = nrows df2" and
    df3_eq: "df3 = df2\<lparr>cols := take 2 (cols df2) @ [(''StemSCAPE-SI'', NumCol (map Fin si))] @ drop 2 (cols df2)\<rparr>"
    by (auto simp: df_insert_def c2 column_length_def split: if_splits)
  have nr: "nrows df2 = length ids" by (simp add: df2_eq df1_eq df0_eq)
  have "df3 = shap_table ids b si (columns X) a"
    by (simp add: df3_eq df2_eq df1_eq df0_eq shap_table_def am)
  moreover have "explained L m e ids X si a"
    unfolding explained_def using sv P si sa m0 am n1 n2 n3 ls nr by (auto simp: reserved_def)
  ultimately show ?thesis using fs' by blast
qed

lemma main_Inr:
  assumes "main L a = (Inr (), fs)"
  shows "\<exists>ids1 X1 y1 le1 ids2 X2 y2 le2 m e b si1 a1 si2 a2 rows.
     process_data L (train a) (label a) (sample a) LabelEncoder True = Inr ((ids1, X1, y1), le1) \<and>
     process_data L (test a) (label a) (sample a) le1 False = Inr ((ids2, X2, y2), le2) \<and>
     rf_fit L X1 y1 = Inr m \<and> length (feature_importances L m) = length (columns X1) \<and>
     TreeExplainer L m = Inr e \<and> select_baseline (expected_value L e) = Inr b \<and>
     explained L m e ids1 X1 si1 a1 \<and> explained L m e ids2 X2 si2 a2 \<and>
     assign_column (zip (columns X1) (feature_importances L m)) (mean_abs_axis0 (length (columns X1)) a1) = Inr rows \<and>
     fs = [(path_join (outdir a) ''training_shap.tsv'', shap_table ids1 b si1 (columns X1) a1),
           (path_join (outdir a) ''testing_shap.tsv'', shap_table ids2 b si2 (columns X2) a2),
           (path_join (outdir a) ''feature_importance_vs_shap.tsv'', importance_table (sort_values_desc rows))]"
proof -
  from assms obtain ids1 X1 y1 le1 where
    p1: "process_data L (train a) (label a) (sample a) LabelEncoder True = Inr ((ids1, X1, y1), le1)"
    by (cases "process_data L (train a) (label a) (sample a) LabelEncoder True")
       (auto simp: main_def)
  from assms p1 obtain ids2 X2 y2 le2 where
    p2: "process_data L (test a) (label a) (sample a) le1 False = Inr ((ids2, X2, y2), le2)"
    by (cases "process_data L (test a) (label a) (sample a) le1 False")
       (auto simp: main_def)
  from assms p1 p2 obtain m where m: "rf_fit L X1 y1 = Inr m"
    by (cases "rf_fit L X1 y1") (auto simp: main_def)
  from assms p1 p2 m have fi: "importance_frame (columns X1) (feature_importances L m) =
      Inr (zip (columns X1) (feature_importances L m))"
    and len: "length (feature_importances L m) = length (columns X1)"
    by (auto simp: main_def importance_frame_def split: if_splits)
  from assms p1 p2 m fi obtain e where e: "TreeExplainer L m = Inr e"
    by (cases "TreeExplainer L m") (auto simp: main_def)
  from assms p1 p2 m fi e obtain b where b: "select_baseline (expected_value L e) = Inr b"
    by (cases "select_baseline (expected_value L e)") (auto simp: main_def)
  from assms p1 p2 m fi e b obtain a1 fs1 where
    o1: "output_shap_results L ids1 X1 m e b (outdir a) ''training'' [] = (Inr a1, fs1)"
    by (cases "output_shap_results L ids1 X1 m e b (outdir a) ''training'' []")
       (auto simp: main_def split: sum.splits)
  from assms p1 p2 m fi e b o1 obtain a2 fs2 where
    o2: "output_shap_results L ids2 X2 m e b (outdir a) ''testing'' fs1 = (Inr a2, fs2)"
    by (cases "output_shap_results L ids2 X2 m e b (outdir a) ''testing'' fs1")
       (auto simp: main_def split: sum.splits)
  from assms p1 p2 m fi e b o1 o2 obtain rows where
    rows: "assign_column (zip (columns X1) (feature_importances L m)) (mean_abs_axis0 (length (columns X1)) a1) = Inr rows"
    and fs: "fs = fs2 @ [(path_join (outdir a) ''feature_importance_vs_shap.tsv'', importance_table (sort_values_desc rows))]"
    by (auto simp: main_def Let_def split: sum.splits)
  from output_shap_results_Inr[OF o1] obtain si1 where
    x1: "explained L m e ids1 X1 si1 a1" and
    fs1: "fs1 = [(path_join (outdir a) ''training_shap.tsv'', shap_table ids1 b si1 (columns X1) a1)]"
    by auto
  from output_shap_results_Inr[OF o2] obtain si2 where
    x2: "explained L m e ids2 X2 si2 a2" and
    fs2: "fs2 = fs1 @ [(path_join (outdir a) ''testing_shap.tsv'', shap_table ids2 b si2 (columns X2) a2)]"
    by auto
  show ?thesis
    using p1 p2 m len e b x1 x2 rows fs fs1 fs2 by (intro exI conjI) (assumption | simp)+
qed

lemma sample_ids_length:
  assumes "sample_ids ns df sc = Inr ids" and "wf_frame df"
  shows "length ids = nrows df"
proof (cases "sample_cols sc")
  case Nil
  with assms(1) show ?thesis by (auto simp: sample_ids_def)
next
  case (Cons c cs)
  with assms(1) obtain v where v: "getitem df c = Inr v" and ids: "ids = astype_str ns v"
    by (auto simp: sample_ids_def split: sum.splits)
  from v have "(c, v) \<in> set (cols df)"
    by (auto simp: getitem_def split: option.splits dest: map_of_SomeD)
  with assms(2) have "column_length v = nrows df"
    by (auto simp: wf_frame_def list_all_iff)
  then show ?thesis by (simp add: ids astype_str_def column_length_def split: column.splits)
qed

lemma columns_drop_columns:
  "drop_columns df cs = Inr X \<Longrightarrow> columns X = filter (\<lambda>n. n \<notin> set cs) (columns df) \<and> nrows X = nrows df"
  by (auto simp: drop_columns_def columns_def filter_map comp_def case_prod_unfold split: list.splits)

lemma columns_shap_table:
  "columns (shap_table ids b si features a) = reserved @ features"
  by (simp add: shap_table_def columns_def reserved_def comp_def map_nth)

lemma wf_shap_table:
  assumes "length si = length ids" and "length a = length ids"
  shows "list_all (\<lambda>(n, c). column_length c = nrows (shap_table ids b si features a))
           (cols (shap_table ids b si features a))"
  using assms by (simp add: shap_table_def column_length_def list_all_iff)

lemma sample_ids_Inr:
  assumes "sample_ids ns df sc = Inr ids"
  shows "(sample_cols sc = [] \<longrightarrow> ids = map (\<lambda>i. Some (''sample_'' @ str_nat i)) [0..<nrows df]) \<and>
         (\<forall>c. sample_cols sc = [c] \<longrightarrow> (\<exists>v. (c, v) \<in> set (cols df) \<and> ids = astype_str ns v))"
proof (cases "sample_cols sc")
  case Nil
  with assms show ?thesis by (simp add: sample_ids_def)
next
  case (Cons c cs)
  with assms obtain v where v: "getitem df c = Inr v" and ids: "ids = astype_str ns v"
    by (auto simp: sample_ids_def split: sum.splits)
  from v have "(c, v) \<in> set (cols df)"
    by (auto simp: getitem_def split: option.splits dest: map_of_SomeD)
  with Cons ids show ?thesis by auto
qed

lemma column1_Inr:
  "column1 P = Inr si \<Longrightarrow> si = map (\<lambda>r. r ! 1) P \<and> list_all (\<lambda>r. 1 < length r) P"
  by (auto simp: column1_def split: if_splits)

lemma explained_Inr:
  assumes "explained L m e ids X si a"
  shows "\<exists>sv P. shap_values L e X = Inr sv \<and> select_shap sv = Inr (NdArray2 a) \<and>
           predict_proba L m X = Inr P \<and> si = map (\<lambda>r. r ! 1) P \<and>
           length a = length ids \<and> list_all (\<lambda>r. length r = length (columns X)) a \<and>
           length P = length ids \<and> list_all (\<lambda>r. 1 < length r) P"
proof -
  from assms obtain sv P where
    1: "shap_values L e X = Inr sv" "predict_proba L m X = Inr P" "column1 P = Inr si"
       "select_shap sv = Inr (NdArray2 a)" "length a = length ids"
       "list_all (\<lambda>r. length r = length (columns X)) a" "length si = length ids"
    unfolding explained_def by blast
  from column1_Inr[OF 1(3)] have 2: "si = map (\<lambda>r. r ! 1) P" "list_all (\<lambda>r. 1 < length r) P"
    by simp_all
  from 2(1) 1(7) have 3: "length P = length ids" by simp
  from 1 2 3 show ?thesis by blast
qed

lemma select_shap_Inr:
  assumes "select_shap sv = Inr (NdArray2 a)"
  shows "case sv of
           PyList m0 ms \<Rightarrow> 1 < length (m0 # ms) \<and> a = (m0 # ms) ! 1
         | NdArray3 a3 \<Rightarrow> a = map (map (\<lambda>cs. cs ! 1)) a3
         | NdArray2 m2 \<Rightarrow> a = m2"
  using assms
  by (cases sv) (auto simp: select_shap_def slice1_def split: if_splits)

lemma select_baseline_Inr:
  assumes "select_baseline ev = Inr b"
  shows "case ev of
           Scalar v \<Rightarrow> False
         | Array1 vs \<Rightarrow> vs \<noteq> [] \<and> b = (if 1 < length vs then vs ! 1 else vs ! 0)"
  using assms
  by (cases ev) (auto simp: select_baseline_def split: if_splits list.splits)

lemma sample_ids_explicit:
  assumes "sample_ids ns df sc = Inr ids"
  shows "\<forall>c. sample_cols sc = [c] \<longrightarrow>
           (\<exists>v. (c, v) \<in> set (cols df) \<and> ids = astype_str ns v \<and>
              ids = (case v of
                       NumCol xs \<Rightarrow> map ns xs
                     | ObjCol ss \<Rightarrow> map (\<lambda>x. case x of None \<Rightarrow> ns NaN | Some s \<Rightarrow> Some s) ss))"
  using sample_ids_Inr[OF assms] by (auto simp: astype_str_def)

text \<open>
  Claim C5. After a successful run the first two files are the training and the scoring
  table. Each has one row per row of its input table, in the table's order, and holds, from
  left to right: \<open>SampleID\<close>, the identifiers of the table (its identifier column as
  strings, or \<open>sample_0\<close>, \<open>sample_1\<close>, ... when no identifier column is named);
  \<open>baseline_value\<close>, one number repeated; \<open>StemSCAPE-SI\<close>, entry 1 of each row of the
  forest's probabilities for the table's matrix; then, for each column of the matrix in
  order, a column of that name with the column of that index of the attribution array
  selected from what the explainer gives for the matrix. The forest, the explainer and the
  baseline are the same in both tables.
\<close>

theorem per_sample_tables_share_explainer_and_baseline:
  assumes "main L a = (Inr (), fs)"
    and "read_csv L (train a) = Inr dtr" and "wf_frame dtr"
    and "read_csv L (test a) = Inr dte" and "wf_frame dte"
  shows "\<exists>ids1 X1 y1 le1 ids2 X2 y2 m e b sv1 P1 a1 sv2 P2 a2.
      process_data L (train a) (label a) (sample a) LabelEncoder True = Inr ((ids1, X1, y1), le1) \<and>
      process_data L (test a) (label a) (sample a) le1 False = Inr ((ids2, X2, y2), le1) \<and>
      length ids1 = nrows dtr \<and> length ids2 = nrows dte \<and>
      (sample_cols (sample a) = [] \<longrightarrow>
         ids1 = map (\<lambda>i. Some (''sample_'' @ str_nat i)) [0..<nrows dtr]) \<and>
      (\<forall>c. sample_cols (sample a) = [c] \<longrightarrow>
         (\<exists>v. (c, v) \<in> set (cols dtr) \<and> ids1 = astype_str (num_str L) v \<and>
            ids1 = (case v of
                      NumCol xs \<Rightarrow> map (num_str L) xs
                    | ObjCol ss \<Rightarrow>
                        map (\<lambda>x. case x of None \<Rightarrow> num_str L NaN | Some s \<Rightarrow> Some s) ss))) \<and>
      (sample_cols (sample a) = [] \<longrightarrow>
         ids2 = map (\<lambda>i. Some (''sample_'' @ str_nat i)) [0..<nrows dte]) \<and>
      (\<forall>c. sample_cols (sample a) = [c] \<longrightarrow>
         (\<exists>v. (c, v) \<in> set (cols dte) \<and> ids2 = astype_str (num_str L) v \<and>
            ids2 = (case v of
                      NumCol xs \<Rightarrow> map (num_str L) xs
                    | ObjCol ss \<Rightarrow>
                        map (\<lambda>x. case x of None \<Rightarrow> num_str L NaN | Some s \<Rightarrow> Some s) ss))) \<and>
      columns X1 = filter (\<lambda>n. n \<notin> set (label a # sample_cols (sample a))) (columns dtr) \<and>
      columns X2 = filter (\<lambda>n. n \<notin> set (label a # sample_cols (sample a))) (columns dte) \<and>
      rf_fit L X1 y1 = Inr m \<and> TreeExplainer L m = Inr e \<and>
      select_baseline (expected_value L e) = Inr b \<and>
      (case expected_value L e of
         Scalar v \<Rightarrow> False
       | Array1 vs \<Rightarrow> vs \<noteq> [] \<and> b = (if 1 < length vs then vs ! 1 else vs ! 0)) \<and>
      shap_values L e X1 = Inr sv1 \<and> select_shap sv1 = Inr (NdArray2 a1) \<and>
      (case sv1 of
         PyList m0 ms \<Rightarrow> 1 < length (m0 # ms) \<and> a1 = (m0 # ms) ! 1
       | NdArray3 a3 \<Rightarrow> a1 = map (map (\<lambda>cs. cs ! 1)) a3
       | NdArray2 m2 \<Rightarrow> a1 = m2) \<and>
      predict_proba L m X1 = Inr P1 \<and>
      shap_values L e X2 = Inr sv2 \<and> select_shap sv2 = Inr (NdArray2 a2) \<and>
      (case sv2 of
         PyList m0 ms \<Rightarrow> 1 < length (m0 # ms) \<and> a2 = (m0 # ms) ! 1
       | NdArray3 a3 \<Rightarrow> a2 = map (map (\<lambda>cs. cs ! 1)) a3
       | NdArray2 m2 \<Rightarrow> a2 = m2) \<and>
      predict_proba L m X2 = Inr P2 \<and>
      length a1 = nrows dtr \<and> list_all (\<lambda>r. length r = length (columns X1)) a1 \<and>
      length P1 = nrows dtr \<and> list_all (\<lambda>r. 1 < length r) P1 \<and>
      length a2 = nrows dte \<and> list_all (\<lambda>r. length r = length (columns X2)) a2 \<and>
      length P2 = nrows dte \<and> list_all (\<lambda>r. 1 < length r) P2 \<and>
      length fs = 3 \<and>
      fst (fs ! 2) = path_join (outdir a) ''feature_importance_vs_shap.tsv'' \<and>
      fs ! 0 = (path_join (outdir a) ''training_shap.tsv'',
                \<lparr>nrows = nrows dtr,
                 cols = (''SampleID'', ObjCol ids1) #
                        (''baseline_value'', NumCol (replicate (nrows dtr) (Fin b))) #
                        (''StemSCAPE-SI'', NumCol (map (\<lambda>r. Fin (r ! 1)) P1)) #
                        map (\<lambda>j. (columns X1 ! j, NumCol (map (\<lambda>r. Fin (r ! j)) a1)))
                          [0..<length (columns X1)]\<rparr>) \<and>
      fs ! 1 = (path_join (outdir a) ''testing_shap.tsv'',
                \<lparr>nrows = nrows dte,
                 cols = (''SampleID'', ObjCol ids2) #
                        (''baseline_value'', NumCol (replicate (nrows dte) (Fin b))) #
                        (''StemSCAPE-SI'', NumCol (map (\<lambda>r. Fin (r ! 1)) P2)) #
                        map (\<lambda>j. (columns X2 ! j, NumCol (map (\<lambda>r. Fin (r ! j)) a2)))
                          [0..<length (columns X2)]\<rparr>)"
proof -
  from main_Inr[OF assms(1)] obtain ids1 X1 y1 le1 ids2 X2 y2 le2 m e b si1 a1 si2 a2 rows where
    p1: "process_data L (train a) (label a) (sample a) LabelEncoder True = Inr ((ids1, X1, y1), le1)" and
    p2: "process_data L (test a) (label a) (sample a) le1 False = Inr ((ids2, X2, y2), le2)" and
    m: "rf_fit L X1 y1 = Inr m" and e: "TreeExplainer L m = Inr e" and
    b: "select_baseline (expected_value L e) = Inr b" and
    x1: "explained L m e ids1 X1 si1 a1" and x2: "explained L m e ids2 X2 si2 a2" and
    fs: "fs = [(path_join (outdir a) ''training_shap.tsv'', shap_table ids1 b si1 (columns X1) a1),
           (path_join (outdir a) ''testing_shap.tsv'', shap_table ids2 b si2 (columns X2) a2),
           (path_join (outdir a) ''feature_importance_vs_shap.tsv'', importance_table (sort_values_desc rows))]"
    by blast
  from process_data_train_Inr[OF p1] assms(2) obtain X0 where
    i1: "sample_ids (num_str L) dtr (sample a) = Inr ids1" and
    d1: "drop_columns dtr (label a # sample_cols (sample a)) = Inr X0" and
    X1: "X1 = encode_non_numeric (num_str L) X0"
    by auto
  from process_data_test_Inr[OF p2] assms(4) obtain X0' where
    le2: "le2 = le1" and
    i2: "sample_ids (num_str L) dte (sample a) = Inr ids2" and
    X2: "X2 = encode_non_numeric (num_str L) X0'" and
    d2: "if label a \<in> set (columns dte)
         then drop_columns dte (label a # sample_cols (sample a)) = Inr X0'
         else drop_columns dte (sample_cols (sample a)) = Inr X0'"
    by (auto split: if_splits)
  note p2' = p2[unfolded le2]
  have n1: "length ids1 = nrows dtr" using i1 assms(3) by (rule sample_ids_length)
  have n2: "length ids2 = nrows dte" using i2 assms(5) by (rule sample_ids_length)
  note s1 = sample_ids_Inr[OF i1, THEN conjunct1] sample_ids_explicit[OF i1]
  note s2 = sample_ids_Inr[OF i2, THEN conjunct1] sample_ids_explicit[OF i2]
  note bx = select_baseline_Inr[OF b]
  have c1: "columns X1 = filter (\<lambda>n. n \<notin> set (label a # sample_cols (sample a))) (columns dtr)"
    using columns_drop_columns[OF d1] by (simp add: X1 columns_encode_non_numeric)
  have c2: "columns X2 = filter (\<lambda>n. n \<notin> set (label a # sample_cols (sample a))) (columns dte)"
  proof (cases "label a \<in> set (columns dte)")
    case True
    with d2 have "drop_columns dte (label a # sample_cols (sample a)) = Inr X0'" by simp
    from columns_drop_columns[OF this] show ?thesis by (simp add: X2 columns_encode_non_numeric)
  next
    case False
    with d2 have "drop_columns dte (sample_cols (sample a)) = Inr X0'" by simp
    from columns_drop_columns[OF this] have "columns X2 = filter (\<lambda>n. n \<notin> set (sample_cols (sample a))) (columns dte)"
      by (simp add: X2 columns_encode_non_numeric)
    also have "\<dots> = filter (\<lambda>n. n \<notin> set (label a # sample_cols (sample a))) (columns dte)"
      using False by (intro filter_cong refl) auto
    finally show ?thesis .
  qed
  from explained_Inr[OF x1] obtain sv1 P1 where
    e1: "shap_values L e X1 = Inr sv1" "select_shap sv1 = Inr (NdArray2 a1)"
        "predict_proba L m X1 = Inr P1" and si1: "si1 = map (\<lambda>r. r ! 1) P1" and
    l1: "length a1 = length ids1" "list_all (\<lambda>r. length r = length (columns X1)) a1"
        "length P1 = length ids1" "list_all (\<lambda>r. 1 < length r) P1"
    by blast
  from explained_Inr[OF x2] obtain sv2 P2 where
    e2: "shap_values L e X2 = Inr sv2" "select_shap sv2 = Inr (NdArray2 a2)"
        "predict_proba L m X2 = Inr P2" and si2: "si2 = map (\<lambda>r. r ! 1) P2" and
    l2: "length a2 = length ids2" "list_all (\<lambda>r. length r = length (columns X2)) a2"
        "length P2 = length ids2" "list_all (\<lambda>r. 1 < length r) P2"
    by blast
  note k1 = select_shap_Inr[OF e1(2)] and k2 = select_shap_Inr[OF e2(2)]
  have lf: "length fs = 3" by (simp add: fs)
  have ft: "fst (fs ! 2) = path_join (outdir a) ''feature_importance_vs_shap.tsv''"
    by (simp add: fs)
  have f0: "fs ! 0 = (path_join (outdir a) ''training_shap.tsv'',
                \<lparr>nrows = nrows dtr,
                 cols = (''SampleID'', ObjCol ids1) #
                        (''baseline_value'', NumCol (replicate (nrows dtr) (Fin b))) #
                        (''StemSCAPE-SI'', NumCol (map (\<lambda>r. Fin (r ! 1)) P1)) #
                        map (\<lambda>j. (columns X1 ! j, NumCol (map (\<lambda>r. Fin (r ! j)) a1)))
                          [0..<length (columns X1)]\<rparr>)"
    by (simp add: fs si1 shap_table_def comp_def n1)
  have f1: "fs ! 1 = (path_join (outdir a) ''testing_shap.tsv'',
                \<lparr>nrows = nrows dte,
                 cols = (''SampleID'', ObjCol ids2) #
                        (''baseline_value'', NumCol (replicate (nrows dte) (Fin b))) #
                        (''StemSCAPE-SI'', NumCol (map (\<lambda>r. Fin (r ! 1)) P2)) #
                        map (\<lambda>j. (columns X2 ! j, NumCol (map (\<lambda>r. Fin (r ! j)) a2)))
                          [0..<length (columns X2)]\<rparr>)"
    by (simp add: fs si2 shap_table_def comp_def n2)
  show ?thesis
    apply (rule exI[of _ ids1], rule exI[of _ X1], rule exI[of _ y1], rule exI[of _ le1])
    apply (rule exI[of _ ids2], rule exI[of _ X2], rule exI[of _ y2])
    apply (rule exI[of _ m], rule exI[of _ e], rule exI[of _ b])
    apply (rule exI[of _ sv1], rule exI[of _ P1], rule exI[of _ a1])
    apply (rule exI[of _ sv2], rule exI[of _ P2], rule exI[of _ a2])
    by (intro conjI p1 p2' n1 n2 s1 s2 c1 c2 m e b bx e1 e2 k1 k2
          l1[unfolded n1] l2[unfolded n2] lf ft f0 f1)
qed

section \<open>The aggregate table\<close>

lemma assign_column_Inr:
  assumes "assign_column (zip features scores) (mean_abs_axis0 (length features) a) = Inr rows"
    and "length scores = length features"
  shows "rows = map (\<lambda>j. (features ! j, scores ! j, mean_abs_column a j)) [0..<length features]"
proof -
  from assms have "rows = map (\<lambda>((feature, score), v). (feature, score, v))
                           (zip (zip features scores) (mean_abs_axis0 (length features) a))"
    by (auto simp: assign_column_def split: if_splits)
  also have "\<dots> = map (\<lambda>j. (features ! j, scores ! j, mean_abs_column a j)) [0..<length features]"
    using assms(2) by (intro nth_equalityI) (simp_all add: mean_abs_axis0_def)
  finally show ?thesis .
qed

lemma sort_values_desc_props:
  "mset (sort_values_desc rows) = mset rows"
  "sorted_wrt (\<lambda>r r'. fst (snd r') \<le> fst (snd r)) (sort_values_desc rows)"
proof -
  show "mset (sort_values_desc rows) = mset rows" by (simp add: sort_values_desc_def)
  have "sorted (map (\<lambda>(feature, score, m). - score) (sort_values_desc rows))"
    unfolding sort_values_desc_def by (rule sorted_sort_key)
  then show "sorted_wrt (\<lambda>r r'. fst (snd r') \<le> fst (snd r)) (sort_values_desc rows)"
    by (simp add: sorted_map case_prod_unfold)
qed

lemma distinct_columns_drop:
  "drop_columns df cs = Inr X \<Longrightarrow> distinct (columns df) \<Longrightarrow> distinct (columns X)"
  using columns_drop_columns by fastforce

text \<open>
  Claim C6. After a successful run the third file is the feature-importance table, with the
  columns \<open>Feature\<close>, \<open>RF_FeatureImportance\<close> and \<open>MeanAbsSHAP\<close> holding the three
  entries of its rows. The rows are, for each column of the training matrix, its name, the
  forest's score of that index, and the mean over the training samples of the absolute
  values of that column of the attribution array selected for the training matrix (NaN when
  there is no sample), rearranged so that the scores descend; every training feature is
  there once.
\<close>

theorem importance_table_sorted_by_score:
  assumes "main L a = (Inr (), fs)" and "read_csv L (train a) = Inr dtr" and "wf_frame dtr"
  shows "\<exists>ids1 X1 y1 le1 m e sv1 a1 rows.
     process_data L (train a) (label a) (sample a) LabelEncoder True = Inr ((ids1, X1, y1), le1) \<and>
     columns X1 = filter (\<lambda>n. n \<notin> set (label a # sample_cols (sample a))) (columns dtr) \<and>
     rf_fit L X1 y1 = Inr m \<and> TreeExplainer L m = Inr e \<and>
     shap_values L e X1 = Inr sv1 \<and> select_shap sv1 = Inr (NdArray2 a1) \<and>
     (case sv1 of
        PyList m0 ms \<Rightarrow> 1 < length (m0 # ms) \<and> a1 = (m0 # ms) ! 1
      | NdArray3 a3 \<Rightarrow> a1 = map (map (\<lambda>cs. cs ! 1)) a3
      | NdArray2 m2 \<Rightarrow> a1 = m2) \<and>
     length a1 = nrows dtr \<and> list_all (\<lambda>r. length r = length (columns X1)) a1 \<and>
     length (feature_importances L m) = length (columns X1) \<and>
     length fs = 3 \<and>
     fs ! 2 = (path_join (outdir a) ''feature_importance_vs_shap.tsv'',
               \<lparr>nrows = length (columns X1),
                cols = [(''Feature'', ObjCol (map (\<lambda>(f, s, v). Some f) rows)),
                        (''RF_FeatureImportance'', NumCol (map (\<lambda>(f, s, v). Fin s) rows)),
                        (''MeanAbsSHAP'', NumCol (map (\<lambda>(f, s, v). v) rows))]\<rparr>) \<and>
     length rows = length (columns X1) \<and>
     distinct (map fst rows) \<and> set (map fst rows) = set (columns X1) \<and>
     mset rows =
       mset (map (\<lambda>j. (columns X1 ! j, feature_importances L m ! j,
                        if a1 = [] then NaN
                        else Fin (sum_list (map (\<lambda>r. \<bar>r ! j\<bar>) a1) / real (length a1))))
              [0..<length (columns X1)]) \<and>
     sorted_wrt (\<lambda>r r'. fst (snd r') \<le> fst (snd r)) rows"
proof -
  from main_Inr[OF assms(1)] obtain ids1 X1 y1 le1 ids2 X2 y2 le2 m e b si1 a1 si2 a2 rows0 where
    p1: "process_data L (train a) (label a) (sample a) LabelEncoder True = Inr ((ids1, X1, y1), le1)" and
    m: "rf_fit L X1 y1 = Inr m" and len: "length (feature_importances L m) = length (columns X1)" and
    e: "TreeExplainer L m = Inr e" and
    x1: "explained L m e ids1 X1 si1 a1" and
    rows0: "assign_column (zip (columns X1) (feature_importances L m))
              (mean_abs_axis0 (length (columns X1)) a1) = Inr rows0" and
    fs: "fs = [(path_join (outdir a) ''training_shap.tsv'', shap_table ids1 b si1 (columns X1) a1),
           (path_join (outdir a) ''testing_shap.tsv'', shap_table ids2 b si2 (columns X2) a2),
           (path_join (outdir a) ''feature_importance_vs_shap.tsv'', importance_table (sort_values_desc rows0))]"
    by blast
  define rows where "rows = sort_values_desc rows0"
  define want where "want = map (\<lambda>j. (columns X1 ! j, feature_importances L m ! j,
                        if a1 = [] then NaN
                        else Fin (sum_list (map (\<lambda>r. \<bar>r ! j\<bar>) a1) / real (length a1))))
                        [0..<length (columns X1)]"
  have "rows0 = map (\<lambda>j. (columns X1 ! j, feature_importances L m ! j, mean_abs_column a1 j))
                  [0..<length (columns X1)]"
    using rows0 len by (rule assign_column_Inr)
  then have r0: "rows0 = want"
    by (simp add: want_def mean_abs_column_def)
  have ms: "mset rows = mset want" by (simp add: rows_def sort_values_desc_props(1) r0)
  have srt: "sorted_wrt (\<lambda>r r'. fst (snd r') \<le> fst (snd r)) rows"
    by (simp add: rows_def sort_values_desc_props(2))
  have fw: "map fst want = columns X1"
    by (simp add: want_def comp_def map_nth)
  have "mset (map fst rows) = mset (columns X1)"
    using ms fw by (metis mset_map)
  then have st: "set (map fst rows) = set (columns X1)" and
    dist_iff: "distinct (map fst rows) = distinct (columns X1)" and
    lr: "length rows = length (columns X1)"
    by (metis mset_eq_setD, metis mset_eq_imp_distinct_iff, metis length_map mset_eq_length)
  from process_data_train_Inr[OF p1] assms(2) obtain X0 where
    i1: "sample_ids (num_str L) dtr (sample a) = Inr ids1" and
    d1: "drop_columns dtr (label a # sample_cols (sample a)) = Inr X0" and
    X1: "X1 = encode_non_numeric (num_str L) X0"
    by auto
  have c1: "columns X1 = filter (\<lambda>n. n \<notin> set (label a # sample_cols (sample a))) (columns dtr)"
    using columns_drop_columns[OF d1] by (simp add: X1 columns_encode_non_numeric)
  have "distinct (columns X1)"
    using distinct_columns_drop[OF d1] assms(3)
    by (simp add: X1 columns_encode_non_numeric wf_frame_def)
  with dist_iff have dst: "distinct (map fst rows)" by simp
  from explained_Inr[OF x1] obtain sv1 P1 where
    e1: "shap_values L e X1 = Inr sv1" "select_shap sv1 = Inr (NdArray2 a1)" and
    l1: "length a1 = length ids1" "list_all (\<lambda>r. length r = length (columns X1)) a1"
    by blast
  have n1: "length ids1 = nrows dtr" using i1 assms(3) by (rule sample_ids_length)
  have lf: "length fs = 3" by (simp add: fs)
  have f2: "fs ! 2 = (path_join (outdir a) ''feature_importance_vs_shap.tsv'',
               \<lparr>nrows = length (columns X1),
                cols = [(''Feature'', ObjCol (map (\<lambda>(f, s, v). Some f) rows)),
                        (''RF_FeatureImportance'', NumCol (map (\<lambda>(f, s, v). Fin s) rows)),
                        (''MeanAbsSHAP'', NumCol (map (\<lambda>(f, s, v). v) rows))]\<rparr>)"
    by (simp add: fs importance_table_def rows_def[symmetric] lr)
  show ?thesis
    apply (rule exI[of _ ids1], rule exI[of _ X1], rule exI[of _ y1], rule exI[of _ le1])
    apply (rule exI[of _ m], rule exI[of _ e], rule exI[of _ sv1], rule exI[of _ a1])
    apply (rule exI[of _ rows])
    by (intro conjI p1 c1 m e e1 select_shap_Inr[OF e1(2)] l1[unfolded n1] len lf f2 lr dst st
          ms[unfolded want_def] srt)
qed

section \<open>A run that completes\<close>

lemma select_shap_shaped:
  assumes "class1_shaped n f sv"
  shows "\<exists>a. select_shap sv = Inr (NdArray2 a) \<and> shaped n f a"
proof (cases sv)
  case (PyList m0 ms)
  with assms show ?thesis
    by (auto simp: class1_shaped_def select_shap_def split: list.splits)
next
  case (NdArray3 a)
  with assms have "list_all (list_all (\<lambda>cs. 1 < length cs)) a"
    and "shaped n f (map (map (\<lambda>cs. cs ! 1)) a)"
    by (auto simp: class1_shaped_def shaped_def list_all_iff)
  with NdArray3 show ?thesis by (simp add: select_shap_def slice1_def)
next
  case (NdArray2 m)
  with assms show ?thesis by (simp add: class1_shaped_def select_shap_def)
qed

lemma output_shap_results_completes:
  assumes "library_answers L m e (length ids) X" and "set reserved \<inter> set (columns X) = {}"
  shows "\<exists>a si. output_shap_results L ids X m e b d name fs =
           (Inr a, fs @ [(path_join d (name @ ''_shap.tsv''), shap_table ids b si (columns X) a)]) \<and>
           length a = length ids"
proof -
  from assms(1) obtain sv P where
    sv: "shap_values L e X = Inr sv" and cs: "class1_shaped (length ids) (length (columns X)) sv" and
    P: "predict_proba L m X = Inr P" and ps: "proba_shaped (length ids) P"
    by (auto simp: library_answers_def)
  from select_shap_shaped[OF cs] obtain a where
    sel: "select_shap sv = Inr (NdArray2 a)" and sh: "shaped (length ids) (length (columns X)) a"
    by blast
  define si where "si = map (\<lambda>r. r ! 1) P"
  have c1: "column1 P = Inr si" using ps by (simp add: column1_def proba_shaped_def si_def)
  have lsi: "length si = length ids" using ps by (simp add: si_def proba_shaped_def)
  define df0 where "df0 = \<lparr>nrows = length ids,
        cols = map (\<lambda>j. (columns X ! j, NumCol (map (\<lambda>r. Fin (r ! j)) a))) [0..<length (columns X)]\<rparr>"
  have d0: "DataFrame (NdArray2 a) (columns X) ids = Inr df0"
    using sh by (simp add: DataFrame_def shaped_def df0_def)
  have k0: "columns df0 = columns X" using columns_DataFrame[OF d0] by simp
  have names: "''SampleID'' \<notin> set (columns X)" "''baseline_value'' \<notin> set (columns X)"
    "''StemSCAPE-SI'' \<notin> set (columns X)"
    using assms(2) by (auto simp: reserved_def)
  define df1 where "df1 = df0\<lparr>cols := (''SampleID'', ObjCol ids) # cols df0\<rparr>"
  have d1: "df_insert df0 0 ''SampleID'' (ObjCol ids) = Inr df1"
    using names(1) by (simp add: df_insert_def k0 column_length_def df1_def) (simp add: df0_def)
  have k1: "columns df1 = ''SampleID'' # columns X" by (simp add: df1_def columns_def k0[unfolded columns_def])
  define df2 where "df2 = df1\<lparr>cols := (''SampleID'', ObjCol ids) #
        (''baseline_value'', NumCol (replicate (length ids) (Fin b))) # cols df0\<rparr>"
  have d2: "df_insert df1 1 ''baseline_value'' (NumCol (replicate (nrows df1) (Fin b))) = Inr df2"
    using names(2) by (simp add: df_insert_def k1 column_length_def df2_def) (simp add: df1_def df0_def)
  have k2: "columns df2 = ''SampleID'' # ''baseline_value'' # columns X"
    by (simp add: df2_def columns_def k0[unfolded columns_def])
  have d3: "df_insert df2 2 ''StemSCAPE-SI'' (NumCol (map Fin si)) = Inr (shap_table ids b si (columns X) a)"
    using names(3) lsi
    by (simp add: df_insert_def k2 column_length_def) (simp add: df2_def df1_def df0_def shap_table_def)
  have "output_shap_results L ids X m e b d name fs =
          (Inr a, fs @ [(path_join d (name @ ''_shap.tsv''), shap_table ids b si (columns X) a)])"
    by (simp add: output_shap_results_def sv P c1 sel d0 d1 d2[unfolded One_nat_def] d3 array2_def)
  moreover have "length a = length ids" using sh by (simp add: shaped_def)
  ultimately show ?thesis by blast
qed

text \<open>
  Claim C8, amended. A scoring table without the label column, which has the identifier
  column when one is named, is processed: the matrix is the table without the identifier
  column (encoded), and there is no label vector. When the training side is processed, the
  library answers with arrays of the right shapes, and no feature bears one of the three
  added column names, the run completes, and the scoring table is written with the columns
  of the training table.
\<close>

theorem unlabelled_scoring_table_is_processed:
  assumes "process_data L (train a) (label a) (sample a) LabelEncoder True = Inr ((ids1, X1, y1), le1)"
    and "read_csv L (test a) = Inr dte"
    and "label a \<notin> set (columns dte)"
    and "set (sample_cols (sample a)) \<subseteq> set (columns dte)"
    and "X2 = encode_non_numeric (num_str L)
                (dte\<lparr>cols := filter (\<lambda>(n, w). n \<notin> set (sample_cols (sample a))) (cols dte)\<rparr>)"
    and "sample_ids (num_str L) dte (sample a) = Inr ids2"
    and "rf_fit L X1 y1 = Inr m"
    and "length (feature_importances L m) = length (columns X1)"
    and "TreeExplainer L m = Inr e"
    and "select_baseline (expected_value L e) = Inr b"
    and "library_answers L m e (length ids1) X1"
    and "library_answers L m e (length ids2) X2"
    and "set reserved \<inter> set (columns X1) = {}"
    and "columns X2 = columns X1"
  shows "process_data L (test a) (label a) (sample a) le1 False = Inr ((ids2, X2, None), le1) \<and>
         columns X2 = filter (\<lambda>n. n \<notin> set (sample_cols (sample a))) (columns dte) \<and>
         nrows X2 = nrows dte \<and>
         fst (main L a) = Inr () \<and>
         (\<exists>t1 t2 t3. snd (main L a) =
                       [(path_join (outdir a) ''training_shap.tsv'', t1),
                        (path_join (outdir a) ''testing_shap.tsv'', t2), t3] \<and>
            columns t2 = ''SampleID'' # ''baseline_value'' # ''StemSCAPE-SI'' # columns X2 \<and>
            columns t2 = columns t1 \<and>
            nrows t2 = length ids2)"
proof -
  from process_data_no_label_test[OF assms(2,3,4), of le1] assms(5,6)
  have p2: "process_data L (test a) (label a) (sample a) le1 False = Inr ((ids2, X2, None), le1)"
    by auto
  have cX2: "columns X2 = filter (\<lambda>n. n \<notin> set (sample_cols (sample a))) (columns dte)"
    and nX2: "nrows X2 = nrows dte"
    using columns_drop_columns[OF drop_columns_ok[OF assms(4)]]
    by (simp_all add: assms(5) columns_encode_non_numeric nrows_encode_non_numeric)
  have r2: "set reserved \<inter> set (columns X2) = {}" using assms(13,14) by simp
  from output_shap_results_completes[OF assms(11,13), of b "outdir a" "''training''" "[]"]
  obtain a1 si1 where
    o1: "output_shap_results L ids1 X1 m e b (outdir a) ''training'' [] =
           (Inr a1, [(path_join (outdir a) ''training_shap.tsv'', shap_table ids1 b si1 (columns X1) a1)])"
    by auto
  from output_shap_results_completes[OF assms(12) r2, of b "outdir a" "''testing''"
      "[(path_join (outdir a) ''training_shap.tsv'', shap_table ids1 b si1 (columns X1) a1)]"]
  obtain a2 si2 where
    o2: "output_shap_results L ids2 X2 m e b (outdir a) ''testing''
           [(path_join (outdir a) ''training_shap.tsv'', shap_table ids1 b si1 (columns X1) a1)] =
           (Inr a2, [(path_join (outdir a) ''training_shap.tsv'', shap_table ids1 b si1 (columns X1) a1),
                     (path_join (outdir a) ''testing_shap.tsv'', shap_table ids2 b si2 (columns X2) a2)])"
    by auto
  have fi: "importance_frame (columns X1) (feature_importances L m) =
              Inr (zip (columns X1) (feature_importances L m))"
    using assms(8) by (simp add: importance_frame_def)
  obtain rows where rows: "assign_column (zip (columns X1) (feature_importances L m))
                             (mean_abs_axis0 (length (columns X1)) a1) = Inr rows"
    using assms(8) by (simp add: assign_column_def mean_abs_axis0_def)
  have mn: "main L a =
      (Inr (), [(path_join (outdir a) ''training_shap.tsv'', shap_table ids1 b si1 (columns X1) a1),
                (path_join (outdir a) ''testing_shap.tsv'', shap_table ids2 b si2 (columns X2) a2),
                (path_join (outdir a) ''feature_importance_vs_shap.tsv'',
                 importance_table (sort_values_desc rows))])"
    by (simp add: main_def assms(1) p2 assms(7) fi assms(9) assms(10) o1 o2 rows)
  have k: "columns (shap_table ids2 b si2 (columns X2) a2) =
             ''SampleID'' # ''baseline_value'' # ''StemSCAPE-SI'' # columns X2"
    "columns (shap_table ids2 b si2 (columns X2) a2) = columns (shap_table ids1 b si1 (columns X1) a1)"
    "nrows (shap_table ids2 b si2 (columns X2) a2) = length ids2"
    by (simp_all add: columns_shap_table reserved_def assms(14)) (simp add: shap_table_def)
  show ?thesis
    using p2 cX2 nX2 mn k by simp
qed

section \<open>The choice of class 1\<close>

text \<open>
  Claim C4. From a list of more than one array the reporter takes the array at index 1; from
  a three-dimensional array, entry 1 of the last axis, whenever every feature of every sample
  has such an entry; a two-dimensional array it keeps as it is, and so it does a list of one
  array. From an array of expected values \<open>main\<close> takes entry 1 if there are two or more,
  and the only entry if there is one.
\<close>

theorem positive_class_slice_and_baseline:
  "select_shap (PyList m0 (m1 # ms)) = Inr (NdArray2 m1) \<and>
   select_shap (PyList m0 []) = Inr (PyList m0 []) \<and>
   select_shap (NdArray3 a3) =
     (if list_all (list_all (\<lambda>cs. 1 < length cs)) a3
      then Inr (NdArray2 (map (map (\<lambda>cs. cs ! 1)) a3)) else Inl IndexError) \<and>
   select_shap (NdArray2 m) = Inr (NdArray2 m) \<and>
   select_baseline (Array1 (v0 # v1 # vs)) = Inr v1 \<and>
   select_baseline (Array1 [v]) = Inr v"
  by (simp add: select_shap_def slice1_def select_baseline_def)

section \<open>The small run, evaluated\<close>

text \<open>
  The small run completes, and writes the three tables below. The training labels \<open>no\<close>
  and \<open>yes\<close> get the codes 0 and 1; the reported numbers are those of index 1.
\<close>

lemma ex_read [simp]:
  "read_csv ex_lib ''data/train.txt'' = Inr ex_train"
  "read_csv ex_lib ''data/test.txt'' = Inr ex_test"
  "read_csv ex_lib ''data/unseen.txt'' = Inr ex_unseen"
  "read_csv ex_lib ''data/bare.txt'' = Inr ex_bare"
  "read_csv ex_lib ''data/missing.txt'' = Inr ex_missing"
  by (simp_all add: ex_lib_def)

lemma ex_main_ok: "main ex_lib ex_args = (Inr (), snd (main ex_lib ex_args))"
proof -
  have "fst (main ex_lib ex_args) = Inr ()" by code_simp
  then show ?thesis by (metis prod.collapse)
qed

lemma ex_wf: "wf_frame ex_train" "wf_frame ex_test"
  by (simp_all add: wf_frame_def ex_train_def ex_test_def columns_def column_length_def)

lemma ex_train_run:
  "process_data ex_lib ''data/train.txt'' ''stem'' (Some ''id'') LabelEncoder True =
     Inr (([Some ''s1'', Some ''s2''], ex_X1, Some [1, 0]),
          \<lparr>classes = Some [Some ''no'', Some ''yes'']\<rparr>)"
  by code_simp

lemma ex_test_run:
  "process_data ex_lib ''data/test.txt'' ''stem'' (Some ''id'') le False =
     Inr (([Some ''s3''], ex_X2, None), le)"
  by (simp add: process_data_def ex_test_def sample_ids_def sample_cols_def getitem_def columns_def
      drop_columns_def astype_str_def ex_X2_def encode_non_numeric_def non_numeric_columns_def
      is_numeric_def encode_step_def setitem_def encode_column_def fit_transform_def np_unique_def
      LabelEncoder_def)

lemma ex_main_run:
  "snd (main ex_lib ex_args) =
   [(''out/training_shap.tsv'',
     \<lparr>nrows = 2,
      cols = [(''SampleID'', ObjCol [Some ''s1'', Some ''s2'']),
              (''baseline_value'', NumCol [Fin (5 / 8), Fin (5 / 8)]),
              (''StemSCAPE-SI'', NumCol [Fin (7 / 8), Fin (7 / 8)]),
              (''age'', NumCol [Fin (3 / 8), Fin (3 / 8)]),
              (''tissue'', NumCol [Fin (- 1 / 8), Fin (- 1 / 8)])]\<rparr>),
    (''out/testing_shap.tsv'',
     \<lparr>nrows = 1,
      cols = [(''SampleID'', ObjCol [Some ''s3'']),
              (''baseline_value'', NumCol [Fin (5 / 8)]),
              (''StemSCAPE-SI'', NumCol [Fin (7 / 8)]),
              (''age'', NumCol [Fin (3 / 8)]),
              (''tissue'', NumCol [Fin (- 1 / 8)])]\<rparr>),
    (''out/feature_importance_vs_shap.tsv'',
     \<lparr>nrows = 2,
      cols = [(''Feature'', ObjCol [Some ''tissue'', Some ''age'']),
              (''RF_FeatureImportance'', NumCol [Fin (3 / 4), Fin (1 / 4)]),
              (''MeanAbsSHAP'', NumCol [Fin (1 / 8), Fin (3 / 8)])]\<rparr>)]"
  by code_simp

lemma ex_args_simps:
  "train ex_args = ''data/train.txt''" "test ex_args = ''data/test.txt''"
  "label ex_args = ''stem''" "sample ex_args = Some ''id''" "outdir ex_args = ''out''"
  by (simp_all add: ex_args_def)

theorem positive_class_follows_label_order_witness:
  "process_data ex_lib ''data/train.txt'' ''stem'' (Some ''id'') LabelEncoder True =
     Inr (([Some ''s1'', Some ''s2''], ex_X1, Some [1, 0]),
          \<lparr>classes = Some [Some ''no'', Some ''yes'']\<rparr>) \<and>
   (\<exists>df y cs codes.
      read_csv ex_lib ''data/train.txt'' = Inr df \<and> getitem df ''stem'' = Inr y \<and>
      cs = [Some ''no'', Some ''yes''] \<and> codes = [1, 0] \<and>
      set cs = set (astype_str (num_str ex_lib) y) \<and>
      length codes = length (astype_str (num_str ex_lib) y) \<and>
      forest_classes codes = [0..<length cs])"
proof -
  note h = ex_train_run
  from positive_class_follows_label_order[OF h] obtain df y cs codes where
    1: "read_csv ex_lib ''data/train.txt'' = Inr df" "getitem df ''stem'' = Inr y" and
    2: "classes \<lparr>classes = Some [Some ''no'', Some ''yes'']\<rparr> = Some cs" "Some [1, 0] = Some codes" and
    3: "set cs = set (astype_str (num_str ex_lib) y)"
       "length codes = length (astype_str (num_str ex_lib) y)"
       "forest_classes codes = [0..<length cs]"
    by blast
  from 2 have 4: "cs = [Some ''no'', Some ''yes'']" "codes = [1, 0]" by simp_all
  from h 1 3 4 show ?thesis by blast
qed

text \<open>
  Claim C10 as stated fails. The training labels are \<open>yes\<close> and a missing one. Where the
  conversion to strings keeps the missing label missing, it is sorted last and gets code 1,
  and \<open>yes\<close> gets code 0; where the conversion makes it the string \<open>nan\<close>, which is
  less than \<open>yes\<close>, the label \<open>yes\<close> gets code 1. The class with code 1 is not settled by
  the order of the label strings.
\<close>

theorem positive_class_counterexample:
  "process_data ex_lib ''data/missing.txt'' ''stem'' (Some ''id'') LabelEncoder True =
     Inr (([Some ''s1'', Some ''s2''], ex_X1, Some [0, 1]),
          \<lparr>classes = Some [Some ''yes'', None]\<rparr>) \<and>
   process_data (ex_lib\<lparr>num_str := ex_num_str (Some ''nan'')\<rparr>) ''data/missing.txt'' ''stem''
       (Some ''id'') LabelEncoder True =
     Inr (([Some ''s1'', Some ''s2''], ex_X1, Some [1, 0]),
          \<lparr>classes = Some [Some ''nan'', Some ''yes'']\<rparr>) \<and>
   ''nan'' < ''yes''"
  by code_simp

theorem missing_training_label_is_configuration_error_witness:
  "read_csv ex_lib (train (ex_args\<lparr>train := ''data/test.txt''\<rparr>)) = Inr ex_test \<and>
   label ex_args \<notin> set (columns ex_test) \<and>
   set (sample_cols (sample ex_args)) \<subseteq> set (columns ex_test) \<and>
   main ex_lib (ex_args\<lparr>train := ''data/test.txt''\<rparr>) =
     (Inl (ValueError (missing_label_message ''test.txt'' ''stem'')), [])"
proof -
  have h1: "read_csv ex_lib (train (ex_args\<lparr>train := ''data/test.txt''\<rparr>)) = Inr ex_test"
    by simp
  have h2: "label (ex_args\<lparr>train := ''data/test.txt''\<rparr>) \<notin> set (columns ex_test)"
    by (simp add: ex_args_def ex_test_def columns_def)
  have h3: "set (sample_cols (sample (ex_args\<lparr>train := ''data/test.txt''\<rparr>))) \<subseteq> set (columns ex_test)"
    by (simp add: ex_args_def ex_test_def columns_def sample_cols_def)
  have b: "basename ''data/test.txt'' = ''test.txt''" by (simp add: basename_def)
  from missing_training_label_is_configuration_error[OF h1 h2 h3] h1 h2 h3 b
  show ?thesis by (simp add: ex_args_def)
qed

text \<open>
  Claim C2 as stated fails: a training table that lacks the label column and the named
  identifier column is refused with a key error for the identifier, raised on line 47 before
  the label is looked at.
\<close>

theorem missing_training_label_counterexample:
  "read_csv ex_lib ''data/bare.txt'' = Inr ex_bare \<and> ''stem'' \<notin> set (columns ex_bare) \<and>
   process_data ex_lib ''data/bare.txt'' ''stem'' (Some ''id'') LabelEncoder True = Inl (KeyError ''id'') \<and>
   main ex_lib (ex_args\<lparr>train := ''data/bare.txt''\<rparr>) = (Inl (KeyError ''id''), [])"
  by (simp add: ex_bare_def columns_def process_data_def sample_ids_def sample_cols_def getitem_def
        main_def ex_args_def)

theorem scoring_labels_reuse_training_map_witness:
  "read_csv ex_lib (train (ex_args\<lparr>test := ''data/unseen.txt''\<rparr>)) = Inr ex_train \<and>
   getitem ex_train ''stem'' = Inr (ObjCol [Some ''yes'', Some ''no'']) \<and>
   read_csv ex_lib (test (ex_args\<lparr>test := ''data/unseen.txt''\<rparr>)) = Inr ex_unseen \<and>
   getitem ex_unseen ''stem'' = Inr (ObjCol [Some ''maybe'']) \<and>
   \<not> set (astype_str (num_str ex_lib) (ObjCol [Some ''maybe''])) \<subseteq>
       set (astype_str (num_str ex_lib) (ObjCol [Some ''yes'', Some ''no''])) \<and>
   isl (fst (main ex_lib (ex_args\<lparr>test := ''data/unseen.txt''\<rparr>))) \<and>
   snd (main ex_lib (ex_args\<lparr>test := ''data/unseen.txt''\<rparr>)) = []"
proof -
  let ?a = "ex_args\<lparr>test := ''data/unseen.txt''\<rparr>"
  have h1: "read_csv ex_lib (train ?a) = Inr ex_train" by (simp add: ex_args_def)
  have h2: "getitem ex_train (label ?a) = Inr (ObjCol [Some ''yes'', Some ''no''])"
    by (simp add: ex_args_def ex_train_def getitem_def)
  have h3: "read_csv ex_lib (test ?a) = Inr ex_unseen" by simp
  have h4: "getitem ex_unseen (label ?a) = Inr (ObjCol [Some ''maybe''])"
    by (simp add: ex_args_def ex_unseen_def getitem_def)
  have h5: "\<not> set (astype_str (num_str ex_lib) (ObjCol [Some ''maybe''])) \<subseteq>
              set (astype_str (num_str ex_lib) (ObjCol [Some ''yes'', Some ''no'']))"
    by (simp add: astype_str_def)
  from scoring_labels_reuse_training_map[OF h1 h2 h3 h4 h5] h1 h2 h3 h4 h5
  show ?thesis by (simp add: ex_args_def)
qed

theorem encode_non_numeric_codes_witness:
  "distinct (columns ex_matrix) \<and>
   columns (encode_non_numeric (num_str ex_lib) ex_matrix) = [''age'', ''tissue''] \<and>
   nrows (encode_non_numeric (num_str ex_lib) ex_matrix) = 3 \<and>
   cols (encode_non_numeric (num_str ex_lib) ex_matrix) ! 0 = (''age'', NumCol [Fin 30, Fin 41, NaN]) \<and>
   cols (encode_non_numeric (num_str ex_lib) ex_matrix) ! 1 = (''tissue'', NumCol [Fin 1, Fin 0, Fin 1]) \<and>
   process_data ex_lib ''data/test.txt'' ''stem'' (Some ''id'') LabelEncoder False =
     Inr (([Some ''s3''], ex_X2, None), LabelEncoder) \<and>
   (\<exists>X0. drop_columns ex_test [''id''] = Inr X0 \<and> ex_X2 = encode_non_numeric (num_str ex_lib) X0)"
proof -
  have h: "distinct (columns ex_matrix)" by (simp add: ex_matrix_def columns_def)
  have c: "snd (fit_transform LabelEncoder [Some ''lung'', Some ''liver'', Some ''lung'']) = [1, 0, 1]"
    by code_simp
  note pd = ex_test_run[of LabelEncoder]
  note t = encode_non_numeric_codes[OF h, where ns = "num_str ex_lib" and L = ex_lib and
      p = "''data/test.txt''" and lc = "''stem''" and sc = "Some ''id''" and le = LabelEncoder and
      is_train = False]
  note q = t[THEN conjunct2, THEN conjunct2, THEN conjunct2, THEN conjunct1, rule_format]
  note r = t[THEN conjunct2, THEN conjunct2, THEN conjunct2, THEN conjunct2, rule_format]
  from t have "columns (encode_non_numeric (num_str ex_lib) ex_matrix) = [''age'', ''tissue'']"
    and "nrows (encode_non_numeric (num_str ex_lib) ex_matrix) = 3"
    by (simp_all add: ex_matrix_def columns_def)
  moreover from q[of 0]
  have "cols (encode_non_numeric (num_str ex_lib) ex_matrix) ! 0 = (''age'', NumCol [Fin 30, Fin 41, NaN])"
    by (simp add: ex_matrix_def)
  moreover from q[of 1]
  have "cols (encode_non_numeric (num_str ex_lib) ex_matrix) ! 1 = (''tissue'', NumCol [Fin 1, Fin 0, Fin 1])"
    by (simp add: ex_matrix_def c)
  moreover from r[OF pd]
  have "\<exists>X0. drop_columns ex_test [''id''] = Inr X0 \<and> ex_X2 = encode_non_numeric (num_str ex_lib) X0"
    by (simp add: sample_cols_def ex_test_def columns_def)
  ultimately show ?thesis using h pd by simp
qed

theorem encoder_overwrites_given_matrix_witness:
  "(0::nat) < length [ex_matrix] \<and>
   encode_non_numeric_h (num_str ex_lib) 0 [ex_matrix] =
     (0, [\<lparr>nrows = 3, cols = [(''age'', NumCol [Fin 30, Fin 41, NaN]),
                              (''tissue'', NumCol [Fin 1, Fin 0, Fin 1])]\<rparr>]) \<and>
   process_data_h ex_lib ''data/test.txt'' ''stem'' (Some ''id'') LabelEncoder False [ex_matrix] =
     Inr ((([Some ''s3''], 2, None), LabelEncoder), [ex_matrix, ex_test, ex_X2]) \<and>
   process_data ex_lib ''data/test.txt'' ''stem'' (Some ''id'') LabelEncoder False =
     Inr (([Some ''s3''], ex_X2, None), LabelEncoder)"
proof -
  have h: "(0::nat) < length [ex_matrix]" by simp
  have e: "encode_non_numeric (num_str ex_lib) ex_matrix =
             \<lparr>nrows = 3, cols = [(''age'', NumCol [Fin 30, Fin 41, NaN]),
                                 (''tissue'', NumCol [Fin 1, Fin 0, Fin 1])]\<rparr>"
    by code_simp
  have pdh: "process_data_h ex_lib ''data/test.txt'' ''stem'' (Some ''id'') LabelEncoder False [ex_matrix] =
     Inr ((([Some ''s3''], 2, None), LabelEncoder), [ex_matrix, ex_test, ex_X2])"
    by code_simp
  note t = encoder_overwrites_given_matrix[OF h, where ns = "num_str ex_lib" and L = ex_lib and
      p = "''data/test.txt''" and lc = "''stem''" and sc = "Some ''id''" and le = LabelEncoder and
      tr = False]
  from t have 1: "encode_non_numeric_h (num_str ex_lib) 0 [ex_matrix] =
     (0, [\<lparr>nrows = 3, cols = [(''age'', NumCol [Fin 30, Fin 41, NaN]),
                              (''tissue'', NumCol [Fin 1, Fin 0, Fin 1])]\<rparr>])"
    by (simp add: e)
  from t[THEN conjunct2, THEN conjunct2, rule_format, OF pdh]
  have 2: "process_data ex_lib ''data/test.txt'' ''stem'' (Some ''id'') LabelEncoder False =
     Inr (([Some ''s3''], ex_X2, None), LabelEncoder)"
    by auto
  from h 1 pdh 2 show ?thesis by blast
qed

text \<open>
  Claim C9 as stated fails: after the call, the object that was passed in is no longer the
  matrix it was.
\<close>

theorem encoder_in_place_counterexample:
  "snd (encode_non_numeric_h (num_str ex_lib) 0 [ex_matrix]) ! 0 \<noteq> ex_matrix"
  by (simp add: encode_non_numeric_h_def ex_matrix_def non_numeric_columns_def is_numeric_def
        heap_step_def encode_step_def getitem_def setitem_def columns_def encode_column_def)

theorem per_sample_tables_share_explainer_and_baseline_witness:
  "main ex_lib ex_args = (Inr (), snd (main ex_lib ex_args)) \<and>
   read_csv ex_lib (train ex_args) = Inr ex_train \<and> wf_frame ex_train \<and>
   read_csv ex_lib (test ex_args) = Inr ex_test \<and> wf_frame ex_test \<and>
   (\<exists>ids1 ids2 b P1 a1 P2 a2.
      ids1 = [Some ''s1'', Some ''s2''] \<and> ids2 = [Some ''s3''] \<and> b = 5 / 8 \<and>
      predict_proba ex_lib () ex_X1 = Inr P1 \<and> predict_proba ex_lib () ex_X2 = Inr P2 \<and>
      select_shap (PyList (replicate 2 [- 3 / 8, 1 / 8]) [replicate 2 [3 / 8, - 1 / 8]]) = Inr (NdArray2 a1) \<and>
      select_shap (PyList (replicate 1 [- 3 / 8, 1 / 8]) [replicate 1 [3 / 8, - 1 / 8]]) = Inr (NdArray2 a2) \<and>
      snd (main ex_lib ex_args) ! 0 =
        (path_join ''out'' ''training_shap.tsv'',
         \<lparr>nrows = 2,
          cols = (''SampleID'', ObjCol ids1) #
                 (''baseline_value'', NumCol (replicate 2 (Fin b))) #
                 (''StemSCAPE-SI'', NumCol (map (\<lambda>r. Fin (r ! 1)) P1)) #
                 map (\<lambda>j. ([''age'', ''tissue''] ! j, NumCol (map (\<lambda>r. Fin (r ! j)) a1))) [0..<2]\<rparr>) \<and>
      snd (main ex_lib ex_args) ! 1 =
        (path_join ''out'' ''testing_shap.tsv'',
         \<lparr>nrows = 1,
          cols = (''SampleID'', ObjCol ids2) #
                 (''baseline_value'', NumCol (replicate 1 (Fin b))) #
                 (''StemSCAPE-SI'', NumCol (map (\<lambda>r. Fin (r ! 1)) P2)) #
                 map (\<lambda>j. ([''age'', ''tissue''] ! j, NumCol (map (\<lambda>r. Fin (r ! j)) a2))) [0..<2]\<rparr>)) \<and>
   take 2 (snd (main ex_lib ex_args)) =
     [(''out/training_shap.tsv'',
       \<lparr>nrows = 2,
        cols = [(''SampleID'', ObjCol [Some ''s1'', Some ''s2'']),
                (''baseline_value'', NumCol [Fin (5 / 8), Fin (5 / 8)]),
                (''StemSCAPE-SI'', NumCol [Fin (7 / 8), Fin (7 / 8)]),
                (''age'', NumCol [Fin (3 / 8), Fin (3 / 8)]),
                (''tissue'', NumCol [Fin (- 1 / 8), Fin (- 1 / 8)])]\<rparr>),
      (''out/testing_shap.tsv'',
       \<lparr>nrows = 1,
        cols = [(''SampleID'', ObjCol [Some ''s3'']),
                (''baseline_value'', NumCol [Fin (5 / 8)]),
                (''StemSCAPE-SI'', NumCol [Fin (7 / 8)]),
                (''age'', NumCol [Fin (3 / 8)]),
                (''tissue'', NumCol [Fin (- 1 / 8)])]\<rparr>)]"
proof -
  note h1 = ex_main_ok
  have h2: "read_csv ex_lib (train ex_args) = Inr ex_train" by (simp add: ex_args_def)
  have h4: "read_csv ex_lib (test ex_args) = Inr ex_test" by (simp add: ex_args_def)
  note h3 = ex_wf(1) and h5 = ex_wf(2)
  have n: "nrows ex_train = 2" "nrows ex_test = 1" "nrows ex_X1 = 2" "nrows ex_X2 = 1"
    "columns ex_X1 = [''age'', ''tissue'']" "columns ex_X2 = [''age'', ''tissue'']"
    by (simp_all add: ex_train_def ex_test_def ex_X1_def ex_X2_def columns_def)
  from per_sample_tables_share_explainer_and_baseline[OF h1 h2 h3 h4 h5]
  obtain ids1 X1 y1 le1 ids2 X2 y2 m e b sv1 P1 a1 sv2 P2 a2 where
    p1: "process_data ex_lib (train ex_args) (label ex_args) (sample ex_args) LabelEncoder True =
           Inr ((ids1, X1, y1), le1)" and
    p2: "process_data ex_lib (test ex_args) (label ex_args) (sample ex_args) le1 False =
           Inr ((ids2, X2, y2), le1)" and
    b: "select_baseline (expected_value ex_lib e) = Inr b" and
    e1: "shap_values ex_lib e X1 = Inr sv1" "select_shap sv1 = Inr (NdArray2 a1)"
        "predict_proba ex_lib m X1 = Inr P1" and
    e2: "shap_values ex_lib e X2 = Inr sv2" "select_shap sv2 = Inr (NdArray2 a2)"
        "predict_proba ex_lib m X2 = Inr P2" and
    f0: "snd (main ex_lib ex_args) ! 0 = (path_join (outdir ex_args) ''training_shap.tsv'',
                \<lparr>nrows = nrows ex_train,
                 cols = (''SampleID'', ObjCol ids1) #
                        (''baseline_value'', NumCol (replicate (nrows ex_train) (Fin b))) #
                        (''StemSCAPE-SI'', NumCol (map (\<lambda>r. Fin (r ! 1)) P1)) #
                        map (\<lambda>j. (columns X1 ! j, NumCol (map (\<lambda>r. Fin (r ! j)) a1)))
                          [0..<length (columns X1)]\<rparr>)" and
    f1: "snd (main ex_lib ex_args) ! 1 = (path_join (outdir ex_args) ''testing_shap.tsv'',
                \<lparr>nrows = nrows ex_test,
                 cols = (''SampleID'', ObjCol ids2) #
                        (''baseline_value'', NumCol (replicate (nrows ex_test) (Fin b))) #
                        (''StemSCAPE-SI'', NumCol (map (\<lambda>r. Fin (r ! 1)) P2)) #
                        map (\<lambda>j. (columns X2 ! j, NumCol (map (\<lambda>r. Fin (r ! j)) a2)))
                          [0..<length (columns X2)]\<rparr>)"
    by blast
  from p1 ex_train_run have v1: "ids1 = [Some ''s1'', Some ''s2'']" "X1 = ex_X1"
    by (simp_all add: ex_args_simps)
  from p2 ex_test_run[of le1] have v2: "ids2 = [Some ''s3'']" "X2 = ex_X2"
    by (simp_all add: ex_args_simps)
  from b have vb: "b = 5 / 8" by (simp add: ex_lib_def select_baseline_def)
  from e1(1) have s1: "sv1 = PyList (replicate 2 [- 3 / 8, 1 / 8]) [replicate 2 [3 / 8, - 1 / 8]]"
    by (simp add: ex_lib_def v1 n)
  from e2(1) have s2: "sv2 = PyList (replicate 1 [- 3 / 8, 1 / 8]) [replicate 1 [3 / 8, - 1 / 8]]"
    by (simp add: ex_lib_def v2 n)
  have q1: "predict_proba ex_lib () ex_X1 = Inr P1" using e1(3) by (simp add: v1)
  have q2: "predict_proba ex_lib () ex_X2 = Inr P2" using e2(3) by (simp add: v2)
  note g0 = f0[unfolded v1(2) n ex_args_simps]
  note g1 = f1[unfolded v2(2) n ex_args_simps]
  have l2: "length [''age'', ''tissue''] = 2" by simp
  have t: "take 2 (snd (main ex_lib ex_args)) =
     [(''out/training_shap.tsv'',
       \<lparr>nrows = 2,
        cols = [(''SampleID'', ObjCol [Some ''s1'', Some ''s2'']),
                (''baseline_value'', NumCol [Fin (5 / 8), Fin (5 / 8)]),
                (''StemSCAPE-SI'', NumCol [Fin (7 / 8), Fin (7 / 8)]),
                (''age'', NumCol [Fin (3 / 8), Fin (3 / 8)]),
                (''tissue'', NumCol [Fin (- 1 / 8), Fin (- 1 / 8)])]\<rparr>),
      (''out/testing_shap.tsv'',
       \<lparr>nrows = 1,
        cols = [(''SampleID'', ObjCol [Some ''s3'']),
                (''baseline_value'', NumCol [Fin (5 / 8)]),
                (''StemSCAPE-SI'', NumCol [Fin (7 / 8)]),
                (''age'', NumCol [Fin (3 / 8)]),
                (''tissue'', NumCol [Fin (- 1 / 8)])]\<rparr>)]"
    by (simp add: ex_main_run)
  show ?thesis
    apply (intro conjI h1 h2 h3 h4 h5 t)
    apply (rule exI[of _ ids1], rule exI[of _ ids2], rule exI[of _ b])
    apply (rule exI[of _ P1], rule exI[of _ a1], rule exI[of _ P2], rule exI[of _ a2])
    using v1(1) v2(1) vb q1 q2 e1(2)[unfolded s1] e2(2)[unfolded s2] g0[unfolded l2] g1[unfolded l2]
    by (intro conjI)
qed

theorem importance_table_sorted_by_score_witness:
  "main ex_lib ex_args = (Inr (), snd (main ex_lib ex_args)) \<and>
   read_csv ex_lib (train ex_args) = Inr ex_train \<and> wf_frame ex_train \<and>
   (\<exists>rows.
      snd (main ex_lib ex_args) ! 2 =
        (path_join ''out'' ''feature_importance_vs_shap.tsv'',
         \<lparr>nrows = 2,
          cols = [(''Feature'', ObjCol (map (\<lambda>(f, s, v). Some f) rows)),
                  (''RF_FeatureImportance'', NumCol (map (\<lambda>(f, s, v). Fin s) rows)),
                  (''MeanAbsSHAP'', NumCol (map (\<lambda>(f, s, v). v) rows))]\<rparr>) \<and>
      mset rows = mset [(''age'', 1 / 4, Fin (3 / 8)), (''tissue'', 3 / 4, Fin (1 / 8))] \<and>
      sorted_wrt (\<lambda>r r'. fst (snd r') \<le> fst (snd r)) rows) \<and>
   snd (main ex_lib ex_args) ! 2 =
     (''out/feature_importance_vs_shap.tsv'',
      \<lparr>nrows = 2,
       cols = [(''Feature'', ObjCol [Some ''tissue'', Some ''age'']),
               (''RF_FeatureImportance'', NumCol [Fin (3 / 4), Fin (1 / 4)]),
               (''MeanAbsSHAP'', NumCol [Fin (1 / 8), Fin (3 / 8)])]\<rparr>)"
proof -
  note h1 = ex_main_ok
  have h2: "read_csv ex_lib (train ex_args) = Inr ex_train" by (simp add: ex_args_def)
  note h3 = ex_wf(1)
  have n: "columns ex_X1 = [''age'', ''tissue'']" "nrows ex_X1 = 2"
    by (simp_all add: ex_X1_def columns_def)
  from importance_table_sorted_by_score[OF h1 h2 h3]
  obtain ids1 X1 y1 le1 m e sv1 a1 rows where
    p1: "process_data ex_lib (train ex_args) (label ex_args) (sample ex_args) LabelEncoder True =
           Inr ((ids1, X1, y1), le1)" and
    e1: "shap_values ex_lib e X1 = Inr sv1" "select_shap sv1 = Inr (NdArray2 a1)" and
    f2: "snd (main ex_lib ex_args) ! 2 = (path_join (outdir ex_args) ''feature_importance_vs_shap.tsv'',
               \<lparr>nrows = length (columns X1),
                cols = [(''Feature'', ObjCol (map (\<lambda>(f, s, v). Some f) rows)),
                        (''RF_FeatureImportance'', NumCol (map (\<lambda>(f, s, v). Fin s) rows)),
                        (''MeanAbsSHAP'', NumCol (map (\<lambda>(f, s, v). v) rows))]\<rparr>)" and
    ms: "mset rows =
       mset (map (\<lambda>j. (columns X1 ! j, feature_importances ex_lib m ! j,
                        if a1 = [] then NaN
                        else Fin (sum_list (map (\<lambda>r. \<bar>r ! j\<bar>) a1) / real (length a1))))
              [0..<length (columns X1)])" and
    srt: "sorted_wrt (\<lambda>r r'. fst (snd r') \<le> fst (snd r)) rows"
    by blast
  from p1 ex_train_run have v1: "X1 = ex_X1" by (simp add: ex_args_simps)
  from e1(1) have s1: "sv1 = PyList (replicate 2 [- 3 / 8, 1 / 8]) [replicate 2 [3 / 8, - 1 / 8]]"
    by (simp add: ex_lib_def v1 n)
  from e1(2) have a1: "a1 = [[3 / 8, - 1 / 8], [3 / 8, - 1 / 8]]"
    by (simp add: s1 select_shap_def numeral_2_eq_2)
  have fi: "feature_importances ex_lib m = [1 / 4, 3 / 4]" by (simp add: ex_lib_def)
  have w: "map (\<lambda>j. ([''age'', ''tissue''] ! j, [1 / 4, 3 / 4 :: real] ! j,
                        if [[3 / 8, - 1 / 8], [3 / 8, - 1 / 8 :: real]] = [] then NaN
                        else Fin (sum_list (map (\<lambda>r. \<bar>r ! j\<bar>) [[3 / 8, - 1 / 8], [3 / 8, - 1 / 8]]) /
                                  real (length [[3 / 8, - 1 / 8], [3 / 8, - 1 / 8 :: real]]))))
              [0..<length [''age'', ''tissue'']] =
           [(''age'', 1 / 4, Fin (3 / 8)), (''tissue'', 3 / 4, Fin (1 / 8))]"
    by code_simp
  note ms' = ms[unfolded v1 n a1 fi w]
  have l2: "length [''age'', ''tissue''] = 2" by simp
  note g2 = f2[unfolded v1 n ex_args_simps l2]
  have t: "snd (main ex_lib ex_args) ! 2 =
     (''out/feature_importance_vs_shap.tsv'',
      \<lparr>nrows = 2,
       cols = [(''Feature'', ObjCol [Some ''tissue'', Some ''age'']),
               (''RF_FeatureImportance'', NumCol [Fin (3 / 4), Fin (1 / 4)]),
               (''MeanAbsSHAP'', NumCol [Fin (1 / 8), Fin (3 / 8)])]\<rparr>)"
    by (simp add: ex_main_run)
  show ?thesis
    apply (intro conjI h1 h2 h3 t)
    apply (rule exI[of _ rows])
    using g2 ms' srt by (intro conjI)
qed

lemma ex_library_answers: "length (columns X) = 2 \<Longrightarrow> library_answers ex_lib () () (nrows X) X"
  by (simp add: library_answers_def ex_lib_def class1_shaped_def shaped_def proba_shaped_def
        list_all_iff)

theorem unlabelled_scoring_table_is_processed_witness:
  "process_data ex_lib (train ex_args) (label ex_args) (sample ex_args) LabelEncoder True =
     Inr (([Some ''s1'', Some ''s2''], ex_X1, Some [1, 0]),
          \<lparr>classes = Some [Some ''no'', Some ''yes'']\<rparr>) \<and>
   read_csv ex_lib (test ex_args) = Inr ex_test \<and>
   label ex_args \<notin> set (columns ex_test) \<and>
   set (sample_cols (sample ex_args)) \<subseteq> set (columns ex_test) \<and>
   process_data ex_lib (test ex_args) (label ex_args) (sample ex_args)
       \<lparr>classes = Some [Some ''no'', Some ''yes'']\<rparr> False =
     Inr (([Some ''s3''], ex_X2, None), \<lparr>classes = Some [Some ''no'', Some ''yes'']\<rparr>) \<and>
   columns ex_X2 = [''age'', ''tissue''] \<and>
   fst (main ex_lib ex_args) = Inr () \<and>
   (\<exists>t1 t2 t3. snd (main ex_lib ex_args) =
                 [(path_join (outdir ex_args) ''training_shap.tsv'', t1),
                  (path_join (outdir ex_args) ''testing_shap.tsv'', t2), t3] \<and>
      columns t2 = [''SampleID'', ''baseline_value'', ''StemSCAPE-SI'', ''age'', ''tissue''] \<and>
      columns t2 = columns t1 \<and> nrows t2 = 1)"
proof -
  have h1: "process_data ex_lib (train ex_args) (label ex_args) (sample ex_args) LabelEncoder True =
     Inr (([Some ''s1'', Some ''s2''], ex_X1, Some [1, 0]),
          \<lparr>classes = Some [Some ''no'', Some ''yes'']\<rparr>)"
    using ex_train_run by (simp add: ex_args_simps)
  have h2: "read_csv ex_lib (test ex_args) = Inr ex_test" by (simp add: ex_args_def)
  have h3: "label ex_args \<notin> set (columns ex_test)"
    by (simp add: ex_args_def ex_test_def columns_def)
  have h4: "set (sample_cols (sample ex_args)) \<subseteq> set (columns ex_test)"
    by (simp add: ex_args_def ex_test_def columns_def sample_cols_def)
  have h5: "ex_X2 = encode_non_numeric (num_str ex_lib)
              (ex_test\<lparr>cols := filter (\<lambda>(n, w). n \<notin> set (sample_cols (sample ex_args))) (cols ex_test)\<rparr>)"
    by code_simp
  have h6: "sample_ids (num_str ex_lib) ex_test (sample ex_args) = Inr [Some ''s3'']"
    by code_simp
  have h7: "rf_fit ex_lib ex_X1 (Some [1, 0]) = Inr ()" by (simp add: ex_lib_def)
  have h8: "length (feature_importances ex_lib ()) = length (columns ex_X1)"
    by (simp add: ex_lib_def ex_X1_def columns_def)
  have h9: "TreeExplainer ex_lib () = Inr ()" by (simp add: ex_lib_def)
  have h10: "select_baseline (expected_value ex_lib ()) = Inr (5 / 8)"
    by (simp add: ex_lib_def select_baseline_def)
  have n1: "length [Some ''s1'', Some ''s2''] = nrows ex_X1" by (simp add: ex_X1_def)
  have n2: "length [Some ''s3''] = nrows ex_X2" by (simp add: ex_X2_def)
  have h11: "library_answers ex_lib () () (length [Some ''s1'', Some ''s2'']) ex_X1"
    unfolding n1 by (rule ex_library_answers) (simp add: ex_X1_def columns_def)
  have h12: "library_answers ex_lib () () (length [Some ''s3'']) ex_X2"
    unfolding n2 by (rule ex_library_answers) (simp add: ex_X2_def columns_def)
  have h13: "set reserved \<inter> set (columns ex_X1) = {}"
    by (simp add: reserved_def ex_X1_def columns_def)
  have h14: "columns ex_X2 = columns ex_X1" by (simp add: ex_X1_def ex_X2_def columns_def)
  have c: "columns ex_X2 = [''age'', ''tissue'']" by (simp add: ex_X2_def columns_def)
  note t = unlabelled_scoring_table_is_processed[OF h1 h2 h3 h4 h5 h6 h7 h8 h9 h10 h11 h12 h13 h14]
  from t have p: "process_data ex_lib (test ex_args) (label ex_args) (sample ex_args)
       \<lparr>classes = Some [Some ''no'', Some ''yes'']\<rparr> False =
     Inr (([Some ''s3''], ex_X2, None), \<lparr>classes = Some [Some ''no'', Some ''yes'']\<rparr>)"
    by blast
  from t have m: "fst (main ex_lib ex_args) = Inr ()" by blast
  from t obtain t1 t2 t3 where
    "snd (main ex_lib ex_args) =
                 [(path_join (outdir ex_args) ''training_shap.tsv'', t1),
                  (path_join (outdir ex_args) ''testing_shap.tsv'', t2), t3]"
    "columns t2 = ''SampleID'' # ''baseline_value'' # ''StemSCAPE-SI'' # columns ex_X2"
    "columns t2 = columns t1" "nrows t2 = length [Some ''s3'']"
    by blast
  then have e: "\<exists>t1 t2 t3. snd (main ex_lib ex_args) =
                 [(path_join (outdir ex_args) ''training_shap.tsv'', t1),
                  (path_join (outdir ex_args) ''testing_shap.tsv'', t2), t3] \<and>
      columns t2 = [''SampleID'', ''baseline_value'', ''StemSCAPE-SI'', ''age'', ''tissue''] \<and>
      columns t2 = columns t1 \<and> nrows t2 = 1"
    unfolding c by (intro exI conjI) auto
  from h1 h2 h3 h4 p c m e show ?thesis by blast
qed

text \<open>
  Claim C8 as stated fails: a scoring table that lacks the label column and the named
  identifier column is refused with a key error, and the run stops before any file is
  written.
\<close>

theorem unlabelled_scoring_table_counterexample:
  "read_csv ex_lib ''data/bare.txt'' = Inr ex_bare \<and> ''stem'' \<notin> set (columns ex_bare) \<and>
   process_data ex_lib ''data/bare.txt'' ''stem'' (Some ''id'')
       \<lparr>classes = Some [Some ''no'', Some ''yes'']\<rparr> False =
     Inl (KeyError ''id'') \<and>
   main ex_lib (ex_args\<lparr>test := ''data/bare.txt''\<rparr>) = (Inl (KeyError ''id''), [])"
proof -
  have 1: "read_csv ex_lib ''data/bare.txt'' = Inr ex_bare" by simp
  have 2: "''stem'' \<notin> set (columns ex_bare)" by (simp add: ex_bare_def columns_def)
  have 3: "process_data ex_lib ''data/bare.txt'' ''stem'' (Some ''id'')
       \<lparr>classes = Some [Some ''no'', Some ''yes'']\<rparr> False =
     Inl (KeyError ''id'')"
    by (simp add: process_data_def sample_ids_def sample_cols_def getitem_def ex_bare_def)
  have 4: "main ex_lib (ex_args\<lparr>test := ''data/bare.txt''\<rparr>) = (Inl (KeyError ''id''), [])"
    by code_simp
  from 1 2 3 4 show ?thesis by simp
qed

end
